theory Spec2Isabelle
  imports Main
begin

section \<open>JavaScript values, as far as index.js uses them\<close>

text \<open>
  The script handles values that come back from the network (\<open>response.data\<close>) and from
  \<open>JSON.parse\<close>, reads properties of them, concatenates them into strings and passes
  them to \<open>JSON.stringify\<close>. Strings are well-formed and written as their UTF-8 bytes. A
  number is carried by its JavaScript rendering (what \<open>String(n)\<close> gives, \<open>Infinity\<close>
  for the value that \<open>JSON.parse\<close> gives to \<open>1e999\<close>), the only thing the script does
  with one.
  An object is the list of its own enumerable properties, with distinct keys, in the order
  JavaScript enumerates them.
\<close>

datatype jsval =
    Undefined
  | Null
  | Bool bool
  | Num string
  | Str string
  | Arr "jsval list"
  | Obj "(string \<times> jsval) list"

text \<open>
  What can be thrown or rejected. \<open>TypeError k\<close> is the error of reading property \<open>k\<close> of
  \<open>undefined\<close> or \<open>null\<close>, \<open>NotPrimitive\<close> the TypeError of converting to a primitive
  value an object that has no such conversion; the other errors come from the libraries and
  the runtime.
\<close>

datatype js_error =
    TypeError string
  | NotPrimitive
  | SyntaxError string
  | FsError string
  | NetworkError string
  | StatusError nat
  | WebDAVError string

fun digit_char :: "nat \<Rightarrow> char" where
  "digit_char n = ''0123456789abcdef'' ! (n mod 16)"

fun show_nat :: "nat \<Rightarrow> string" where
  "show_nat n = (if n < 10 then [digit_char n] else show_nat (n div 10) @ [digit_char (n mod 10)])"

declare show_nat.simps [simp del]

text \<open>
  Property read \<open>v[k]\<close> (and \<open>v.k\<close>), for the keys that index.js reads:
  \<open>access_token\<close>, \<open>Results\<close>, \<open>0\<close>, \<open>Uri\<close>, \<open>agreement\<close> and \<open>id\<close>, none of which is
  \<open>length\<close> or a name that a built-in prototype defines. An array index is the key that renders it (\<open>Results[0]\<close> reads key \<open>''0''\<close>);
  a string has its characters at its indices; a read past the end, or of a boolean or a
  number, gives \<open>undefined\<close>; a read of \<open>undefined\<close> or \<open>null\<close> throws.
\<close>

definition indexed :: "'a list \<Rightarrow> (string \<times> 'a) list" where
  "indexed xs = zip (map show_nat [0..<length xs]) xs"

fun get_prop :: "jsval \<Rightarrow> string \<Rightarrow> js_error + jsval" where
  "get_prop Undefined k = Inl (TypeError k)"
| "get_prop Null k = Inl (TypeError k)"
| "get_prop (Bool b) k = Inr Undefined"
| "get_prop (Num n) k = Inr Undefined"
| "get_prop (Str s) k =
     (case map_of (indexed s) k of None \<Rightarrow> Inr Undefined | Some c \<Rightarrow> Inr (Str [c]))"
| "get_prop (Arr xs) k =
     (case map_of (indexed xs) k of None \<Rightarrow> Inr Undefined | Some v \<Rightarrow> Inr v)"
| "get_prop (Obj kvs) k =
     (case map_of kvs k of None \<Rightarrow> Inr Undefined | Some v \<Rightarrow> Inr v)"

fun join :: "string \<Rightarrow> string list \<Rightarrow> string" where
  "join sep [] = []"
| "join sep [x] = x"
| "join sep (x # y # ys) = x @ sep @ join sep (y # ys)"

text \<open>The results of a sequence of conversions, or the first error thrown among them.\<close>

fun first_error :: "(js_error + 'a) list \<Rightarrow> js_error + 'a list" where
  "first_error [] = Inr []"
| "first_error (Inl error # rs) = Inl error"
| "first_error (Inr x # rs) =
     (case first_error rs of Inl error \<Rightarrow> Inl error | Inr xs \<Rightarrow> Inr (x # xs))"

text \<open>
  String conversion, as the \<open>+\<close> of a string and a value applies it. An array is the
  \<open>join\<close> of its converted elements, \<open>undefined\<close> and \<open>null\<close> among them giving the
  empty string. An object is converted by the \<open>toString\<close> it inherits, unless it has a
  property \<open>toString\<close> of its own: that one, a value and no function, is passed over, the
  \<open>valueOf\<close> it inherits gives no primitive value, and the conversion throws.
\<close>

fun to_string :: "jsval \<Rightarrow> js_error + string" where
  "to_string Undefined = Inr ''undefined''"
| "to_string Null = Inr ''null''"
| "to_string (Bool b) = Inr (if b then ''true'' else ''false'')"
| "to_string (Num n) = Inr n"
| "to_string (Str s) = Inr s"
| "to_string (Arr xs) =
     (case first_error (map (\<lambda>x. if x = Undefined \<or> x = Null then Inr [] else to_string x) xs) of
        Inl error \<Rightarrow> Inl error
      | Inr parts \<Rightarrow> Inr (join '','' parts))"
| "to_string (Obj kvs) =
     (case map_of kvs ''toString'' of
        None \<Rightarrow> Inr ''[object Object]''
      | Some own \<Rightarrow> Inl NotPrimitive)"

text \<open>An environment variable that is not set reads as \<open>undefined\<close>.\<close>

fun env_string :: "string option \<Rightarrow> string" where
  "env_string None = ''undefined''"
| "env_string (Some s) = s"

subsection \<open>JSON.stringify\<close>

definition hex2 :: "nat \<Rightarrow> string" where
  "hex2 n = [digit_char (n div 16), digit_char (n mod 16)]"

definition escape_char :: "char \<Rightarrow> string" where
  "escape_char c =
     (if c = CHR 0x22 then [CHR 0x5C, CHR 0x22]
      else if c = CHR 0x5C then [CHR 0x5C, CHR 0x5C]
      else if c = CHR 0x08 then [CHR 0x5C, CHR ''b'']
      else if c = CHR 0x0C then [CHR 0x5C, CHR ''f'']
      else if c = CHR 0x0A then [CHR 0x5C, CHR ''n'']
      else if c = CHR 0x0D then [CHR 0x5C, CHR ''r'']
      else if c = CHR 0x09 then [CHR 0x5C, CHR ''t'']
      else if (of_char c :: nat) < 32 then [CHR 0x5C, CHR ''u'', CHR ''0'', CHR ''0''] @ hex2 (of_char c)
      else [c])"

definition quote :: "string \<Rightarrow> string" where
  "quote s = [CHR 0x22] @ concat (map escape_char s) @ [CHR 0x22]"

text \<open>
  \<open>None\<close> is the result \<open>undefined\<close>: a property whose value stringifies to \<open>undefined\<close>
  is left out of its object, and such an element of an array is written \<open>null\<close>. A
  number that is not finite is written \<open>null\<close>.
\<close>

fun JSON_stringify :: "jsval \<Rightarrow> string option" where
  "JSON_stringify Undefined = None"
| "JSON_stringify Null = Some ''null''"
| "JSON_stringify (Bool b) = Some (if b then ''true'' else ''false'')"
| "JSON_stringify (Num n) =
     Some (if n = ''Infinity'' \<or> n = ''-Infinity'' \<or> n = ''NaN'' then ''null'' else n)"
| "JSON_stringify (Str s) = Some (quote s)"
| "JSON_stringify (Arr xs) =
     Some (''['' @ join '','' (map (\<lambda>x. case JSON_stringify x of None \<Rightarrow> ''null'' | Some t \<Rightarrow> t) xs) @ '']'')"
| "JSON_stringify (Obj kvs) =
     Some (''{'' @ join '','' (concat (map (\<lambda>(k, v). case JSON_stringify v of
                                                      None \<Rightarrow> [] | Some t \<Rightarrow> [quote k @ '':'' @ t]) kvs)) @ ''}'')"

subsection \<open>Buffer\<close>

text \<open>\<open>Buffer.from(s).toString('base64')\<close>: the standard alphabet, padded with \<open>=\<close>.\<close>

definition b64_char :: "nat \<Rightarrow> char" where
  "b64_char n = ''ABCDEFGHIJKLMNOPQRSTUVWXYZabcdefghijklmnopqrstuvwxyz0123456789+/'' ! (n mod 64)"

fun base64_bytes :: "nat list \<Rightarrow> string" where
  "base64_bytes [] = []"
| "base64_bytes [a] = [b64_char (a div 4), b64_char ((a mod 4) * 16), CHR ''='', CHR ''='']"
| "base64_bytes [a, b] =
     [b64_char (a div 4), b64_char ((a mod 4) * 16 + b div 16), b64_char ((b mod 16) * 4), CHR ''='']"
| "base64_bytes (a # b # c # rest) =
     [b64_char (a div 4), b64_char ((a mod 4) * 16 + b div 16),
      b64_char ((b mod 16) * 4 + c div 64), b64_char (c mod 64)] @ base64_bytes rest"

definition base64 :: "string \<Rightarrow> string" where
  "base64 s = base64_bytes (map of_char s)"

text \<open>\<open>Buffer.from(bytes)\<close>: a new buffer with the same bytes.\<close>

definition Buffer_from :: "string \<Rightarrow> string" where
  "Buffer_from bytes = bytes"

section \<open>The world outside the script\<close>

text \<open>
  Everything index.js does not compute itself is an input of a run: the environment
  variables, the file system, \<open>JSON.parse\<close>, the clock behind \<open>dateFormat(Date(), ...)\<close>
  (read at the number of events that have happened so far), the sixteen bytes that the
  random source gives to the one call of \<open>uuidv4()\<close> in a run (\<open>rng w i\<close> is the byte at
  index \<open>i\<close>), and the outcome of each promise: \<open>Inl\<close> the error it rejects with (axios
  rejects on a network error and on a status outside 2xx), \<open>Inr\<close> the \<open>response.data\<close> it
  resolves with. For the download, requested as an \<open>arraybuffer\<close>, that is the bytes of
  the document; for the other requests it is the value parsed from a JSON body, and the
  text itself, a string, of a body that is not JSON, which axios does not take for an
  error. The library calls return their promise without throwing; what a handler of the
  script throws is part of the model below.
\<close>

record world =
  env :: "string \<Rightarrow> string option"
  readFileSync :: "string \<Rightarrow> js_error + string"
  JSON_parse :: "string \<Rightarrow> js_error + jsval"
  dateFormat_now :: "nat \<Rightarrow> string"
  rng :: "nat \<Rightarrow> char"
  refresh_outcome :: "js_error + jsval"
  download_outcome :: "js_error + string"
  create_outcome :: "js_error + jsval"
  putFileContents_outcome :: "js_error + unit"
  attach_outcome :: "js_error + jsval"

record axios_config =
  "method" :: string
  url :: string
  headers :: "(string \<times> string) list"
  responseType :: "string option"
  data :: "string option"

datatype log_arg = LogStr string | LogError js_error

text \<open>The client that \<open>createClient(url, {username, password})\<close> returns.\<close>

record webdav_client =
  remoteURL :: "string option"
  username :: "string option"
  password :: "string option"

text \<open>What a run does that can be observed from outside, in the order it does it.\<close>

datatype event =
    ReadFileSync string
  | Axios axios_config
  | PutFileContents webdav_client string string
  | ConsoleLog "log_arg list"
  | Uncaught js_error

fun is_network_call :: "event \<Rightarrow> bool" where
  "is_network_call (Axios c) = True"
| "is_network_call (PutFileContents c p d) = True"
| "is_network_call e = False"

definition network_calls :: "event list \<Rightarrow> event list" where
  "network_calls tr = filter is_network_call tr"

subsection \<open>uuidv4()\<close>

text \<open>
  The \<open>v4\<close> of the uuid package: it takes sixteen random bytes, writes the version 4 into
  the high half of byte 6 (\<open>rnds[6] & 0x0f | 0x40\<close>) and the variant into the two high bits
  of byte 8 (\<open>rnds[8] & 0x3f | 0x80\<close>), and renders the bytes in lower-case hexadecimal,
  in groups of 4, 2, 2, 2 and 6 bytes joined by \<open>-\<close>.
\<close>

definition unsafeStringify :: "(nat \<Rightarrow> nat) \<Rightarrow> string" where
  "unsafeStringify arr =
     hex2 (arr 0) @ hex2 (arr 1) @ hex2 (arr 2) @ hex2 (arr 3) @ ''-''
     @ hex2 (arr 4) @ hex2 (arr 5) @ ''-''
     @ hex2 (arr 6) @ hex2 (arr 7) @ ''-''
     @ hex2 (arr 8) @ hex2 (arr 9) @ ''-''
     @ hex2 (arr 10) @ hex2 (arr 11) @ hex2 (arr 12) @ hex2 (arr 13) @ hex2 (arr 14)
     @ hex2 (arr 15)"

definition v4_rnds :: "(nat \<Rightarrow> char) \<Rightarrow> nat \<Rightarrow> nat" where
  "v4_rnds random =
     (let rnds = (\<lambda>i. of_char (random i));
          rnds = rnds(6 := rnds 6 mod 16 + 64);
          rnds = rnds(8 := rnds 8 mod 64 + 128)
      in rnds)"

definition uuidv4 :: "world \<Rightarrow> string" where
  "uuidv4 w = unsafeStringify (v4_rnds (rng w))"

section \<open>index.js\<close>

subsection \<open>Constants\<close>

definition adobeSignClientId :: "world \<Rightarrow> string option" where
  "adobeSignClientId w = env w ''ADOBE_SIGN_CLIENT_ID''"

definition adobeSignClientSecret :: "world \<Rightarrow> string option" where
  "adobeSignClientSecret w = env w ''ADOBE_SIGN_CLIENT_SECRET''"

definition adobeSignRefreshToken :: "world \<Rightarrow> string option" where
  "adobeSignRefreshToken w = env w ''ADOBE_SIGN_REFRESH_TOKEN''"

definition contentManagerUsername :: "world \<Rightarrow> string option" where
  "contentManagerUsername w = env w ''CONTENT_MANAGER_USERNAME''"

definition contentManagerPassword :: "world \<Rightarrow> string option" where
  "contentManagerPassword w = env w ''CONTENT_MANAGER_PASSWORD''"

definition authorizationHeaderValue :: "world \<Rightarrow> string" where
  "authorizationHeaderValue w =
     ''Basic '' @ base64 (env_string (contentManagerUsername w) @ '':'' @ env_string (contentManagerPassword w))"

definition contentManagerServiceAPIBaseUrl :: "world \<Rightarrow> string option" where
  "contentManagerServiceAPIBaseUrl w = env w ''CONTENT_MANAGER_API_BASE_URL''"

definition contentManagerWedDAVUrl :: "world \<Rightarrow> string option" where
  "contentManagerWedDAVUrl w = env w ''CONTENT_MANAGER_WEBDAV_URL''"

definition adobeSignBaseUrl :: "world \<Rightarrow> string option" where
  "adobeSignBaseUrl w = env w ''ADOBE_SIGN_BASE_URL''"

definition escapeCharcters :: string where
  "escapeCharcters = [CHR 0x1B]"

definition resetColor :: string where
  "resetColor = [CHR 0x1B] @ ''[0m''"

definition cyan :: string where
  "cyan = escapeCharcters @ ''[36m''"

definition red :: string where
  "red = escapeCharcters @ ''[31m''"

definition yellow :: string where
  "yellow = escapeCharcters @ ''[33m''"

definition green :: string where
  "green = escapeCharcters @ ''[32m''"

definition white :: string where
  "white = escapeCharcters @ ''[37m''"

definition gblCreateRecordJSON :: jsval where
  "gblCreateRecordJSON =
     Obj [(''RecordTitle'', Str ''Adobe Sign Integration Demo 3''),
          (''RecordRecordType'', Str ''Document'')]"

subsection \<open>Logging\<close>

definition getTimeStamp :: "world \<Rightarrow> nat \<Rightarrow> string" where
  "getTimeStamp w t = cyan @ dateFormat_now w t @ '' :'' @ resetColor"

text \<open>
  \<open>console.log(getTimeStamp(), colour + text, resetColor)\<close>, the status line of every
  handler, with the time stamp of the number of events that have happened.
\<close>

definition log_status :: "world \<Rightarrow> string \<Rightarrow> string \<Rightarrow> event list \<Rightarrow> event list" where
  "log_status w colour msg tr =
     tr @ [ConsoleLog [LogStr (getTimeStamp w (length tr)), LogStr (colour @ msg),
                       LogStr resetColor]]"

definition log_error :: "js_error \<Rightarrow> event list \<Rightarrow> event list" where
  "log_error error tr = tr @ [ConsoleLog [LogError error]]"

subsection \<open>The stages\<close>

text \<open>
  Each stage takes the events so far and returns the events of the whole run from there.
  \<open>p.then(f).catch(g)\<close> runs \<open>f\<close> when \<open>p\<close> resolves and \<open>g\<close> when \<open>p\<close> rejects or \<open>f\<close>
  throws; the handlers \<open>g\<close> are the \<open>_catch\<close> functions. A handler \<open>f\<close> calls the next stage,
  which builds its request, issues it and returns. \<open>downloadAgreementDocument\<close> builds its
  request from two values of the responses by string concatenation, which can throw: then
  it has issued nothing, and the error is thrown in the handler that called it.
\<close>

text \<open>
  A further read in a chain such as \<open>response.data.Results[0].Uri\<close>: when an earlier read
  of the chain has thrown, the chain throws that error.
\<close>

definition then_read :: "js_error + jsval \<Rightarrow> string \<Rightarrow> js_error + jsval" where
  "then_read r k = (case r of Inl error \<Rightarrow> Inl error | Inr v \<Rightarrow> get_prop v k)"

definition attachDocument_config :: "world \<Rightarrow> jsval \<Rightarrow> axios_config" where
  "attachDocument_config w jsonData =
     \<lparr>method = ''POST'',
      url = env_string (contentManagerServiceAPIBaseUrl w) @ ''/Record'',
      headers = [(''Authorization'', authorizationHeaderValue w),
                 (''Content-Type'', ''application/json'')],
      responseType = None,
      data = JSON_stringify jsonData\<rparr>"

definition attachDocument_catch :: "world \<Rightarrow> js_error \<Rightarrow> event list \<Rightarrow> event list" where
  "attachDocument_catch w error tr =
     log_error error
       (log_status w red ''Error attaching document to the Content Manager record.'' tr)"

definition attachDocument :: "world \<Rightarrow> jsval \<Rightarrow> event list \<Rightarrow> event list" where
  "attachDocument w jsonData tr =
     (let tr1 = tr @ [Axios (attachDocument_config w jsonData)]
      in case attach_outcome w of
           Inr response \<Rightarrow>
             log_status w green ''Document successfully attached to the Content Manager record.'' tr1
         | Inl error \<Rightarrow> attachDocument_catch w error tr1)"

definition createClient :: "string option \<Rightarrow> string option \<Rightarrow> string option \<Rightarrow> webdav_client" where
  "createClient remote user pass = \<lparr>remoteURL = remote, username = user, password = pass\<rparr>"

definition uploadDocument_catch :: "world \<Rightarrow> js_error \<Rightarrow> event list \<Rightarrow> event list" where
  "uploadDocument_catch w error tr =
     log_error error (log_status w red ''Error transferring file to WebDAV folder.'' tr)"

definition uploadDocument :: "world \<Rightarrow> jsval \<Rightarrow> string \<Rightarrow> string \<Rightarrow> event list \<Rightarrow> event list" where
  "uploadDocument w uri filename electronicDocument tr =
     (let webDAVClient = createClient (contentManagerWedDAVUrl w)
                          (contentManagerUsername w) (contentManagerPassword w);
          tr2 = tr @ [PutFileContents webDAVClient (''/'' @ filename) electronicDocument]
      in case putFileContents_outcome w of
           Inr response \<Rightarrow>
             (let tr3 = log_status w green ''Document successfully transferred to WebDAV folder.'' tr2;
                  attachDocumentJSON = Obj [(''Uri'', uri), (''RecordFilePath'', Str filename)]
              in attachDocument w attachDocumentJSON tr3)
         | Inl error \<Rightarrow> uploadDocument_catch w error tr2)"

definition createRecord_config :: "world \<Rightarrow> jsval \<Rightarrow> axios_config" where
  "createRecord_config w jsonData =
     \<lparr>method = ''post'',
      url = env_string (contentManagerServiceAPIBaseUrl w) @ ''/Record'',
      headers = [(''Authorization'', authorizationHeaderValue w),
                 (''Content-Type'', ''application/json'')],
      responseType = None,
      data = JSON_stringify jsonData\<rparr>"

definition createRecord_catch :: "world \<Rightarrow> js_error \<Rightarrow> event list \<Rightarrow> event list" where
  "createRecord_catch w error tr =
     log_error error (log_status w red ''Error creating Content Manager record.'' tr)"

definition createRecord :: "world \<Rightarrow> jsval \<Rightarrow> string \<Rightarrow> event list \<Rightarrow> event list" where
  "createRecord w jsonData electronicDocument tr =
     (let tr1 = tr @ [Axios (createRecord_config w jsonData)]
      in case create_outcome w of
           Inr response_data \<Rightarrow>
             (let tr2 = log_status w green ''New Content Manager record successfully created.'' tr1;
                  filename = uuidv4 w @ ''.pdf''
              in case then_read (then_read (get_prop response_data ''Results'') ''0'') ''Uri'' of
                   Inr uri \<Rightarrow> uploadDocument w uri filename electronicDocument tr2
                 | Inl error \<Rightarrow> createRecord_catch w error tr2)
         | Inl error \<Rightarrow> createRecord_catch w error tr1)"

definition downloadAgreementDocument_config ::
  "world \<Rightarrow> jsval \<Rightarrow> jsval \<Rightarrow> js_error + axios_config" where
  "downloadAgreementDocument_config w accessToken agreementId =
     (case to_string agreementId of
        Inl error \<Rightarrow> Inl error
      | Inr agreementId_text \<Rightarrow>
          (case to_string accessToken of
             Inl error \<Rightarrow> Inl error
           | Inr accessToken_text \<Rightarrow>
               Inr \<lparr>method = ''get'',
                    url = env_string (adobeSignBaseUrl w) @ ''/api/rest/v6/agreements/''
                            @ agreementId_text
                            @ ''/combinedDocument?attachSupportingDocuments=false'',
                    headers = [(''Authorization'', ''Bearer '' @ accessToken_text)],
                    responseType = Some ''arraybuffer'',
                    data = None\<rparr>))"

definition downloadAgreementDocument_catch :: "world \<Rightarrow> js_error \<Rightarrow> event list \<Rightarrow> event list" where
  "downloadAgreementDocument_catch w error tr =
     log_error error (log_status w green ''Error downloading document from Adobe Sign.'' tr)"

definition downloadAgreementDocument ::
  "world \<Rightarrow> jsval \<Rightarrow> jsval \<Rightarrow> event list \<Rightarrow> js_error + event list" where
  "downloadAgreementDocument w accessToken agreementId tr =
     (case downloadAgreementDocument_config w accessToken agreementId of
        Inl error \<Rightarrow> Inl error
      | Inr config \<Rightarrow>
          Inr (let tr1 = tr @ [Axios config]
               in case download_outcome w of
                    Inr response_data \<Rightarrow>
                      (let tr2 = log_status w green ''Document downloaded from Adobe Sign.'' tr1;
                           electronicDocument = Buffer_from response_data
                       in createRecord w gblCreateRecordJSON electronicDocument tr2)
                  | Inl error \<Rightarrow> downloadAgreementDocument_catch w error tr1))"

definition refreshAdobeAccessToken_config :: "world \<Rightarrow> axios_config" where
  "refreshAdobeAccessToken_config w =
     \<lparr>method = ''POST'',
      url = env_string (adobeSignBaseUrl w) @ ''/oauth/refresh?refresh_token=''
              @ env_string (adobeSignRefreshToken w) @ ''&client_id=''
              @ env_string (adobeSignClientId w) @ ''&client_secret=''
              @ env_string (adobeSignClientSecret w) @ ''&grant_type=refresh_token'',
      headers = [(''Content-Type'', ''application/x-www-form-urlencoded'')],
      responseType = None,
      data = None\<rparr>"

definition refreshAdobeAccessToken_catch :: "world \<Rightarrow> js_error \<Rightarrow> event list \<Rightarrow> event list" where
  "refreshAdobeAccessToken_catch w error tr =
     log_error error (log_status w red ''Error updating Adobe Sign Access Token.'' tr)"

definition refreshAdobeAccessToken :: "world \<Rightarrow> jsval \<Rightarrow> event list \<Rightarrow> event list" where
  "refreshAdobeAccessToken w gblAgreementId tr =
     (let tr1 = tr @ [Axios (refreshAdobeAccessToken_config w)]
      in case refresh_outcome w of
           Inr response_data \<Rightarrow>
             (let tr2 = log_status w green ''Adobe Sign Access Token updated.'' tr1
              in case get_prop response_data ''access_token'' of
                   Inr access_token \<Rightarrow>
                     (case downloadAgreementDocument w access_token gblAgreementId tr2 of
                        Inr tr3 \<Rightarrow> tr3
                      | Inl error \<Rightarrow> refreshAdobeAccessToken_catch w error tr2)
                 | Inl error \<Rightarrow> refreshAdobeAccessToken_catch w error tr2)
         | Inl error \<Rightarrow> refreshAdobeAccessToken_catch w error tr1)"

subsection \<open>The top level of the module\<close>

text \<open>
  The fixture is read, parsed and the agreement identifier taken from it before
  \<open>refreshAdobeAccessToken()\<close> is called; an exception there is not caught by anything.
\<close>

definition gblAgreementId :: "world \<Rightarrow> js_error + jsval" where
  "gblAgreementId w =
     (case readFileSync w ''AdobeSignWebhookExample.json'' of
        Inl error \<Rightarrow> Inl error
      | Inr fileContents \<Rightarrow>
          (case JSON_parse w fileContents of
             Inl error \<Rightarrow> Inl error
           | Inr gblAdobeWebhookJSON \<Rightarrow> then_read (get_prop gblAdobeWebhookJSON ''agreement'') ''id''))"

definition main :: "world \<Rightarrow> event list" where
  "main w =
     (let tr0 = [ReadFileSync ''AdobeSignWebhookExample.json'']
      in case gblAgreementId w of
           Inl error \<Rightarrow> tr0 @ [Uncaught error]
         | Inr agreementId \<Rightarrow> refreshAdobeAccessToken w agreementId tr0)"

section \<open>Observing a run\<close>

text \<open>
  What a stage hands to the next one: the value its success handler reads from the response,
  or the error that reaches its \<open>catch\<close> handler, which is the error the promise rejects
  with or the error the success handler throws while reading.
\<close>

definition refresh_stage :: "world \<Rightarrow> js_error + jsval" where
  "refresh_stage w =
     (case refresh_outcome w of
        Inl error \<Rightarrow> Inl error
      | Inr response_data \<Rightarrow> get_prop response_data ''access_token'')"

definition create_stage :: "world \<Rightarrow> js_error + jsval" where
  "create_stage w =
     (case create_outcome w of
        Inl error \<Rightarrow> Inl error
      | Inr response_data \<Rightarrow> then_read (then_read (get_prop response_data ''Results'') ''0'') ''Uri'')"

text \<open>The status line in colour \<open>colour\<close> that is written when \<open>t\<close> events have happened.\<close>

abbreviation status_line :: "world \<Rightarrow> nat \<Rightarrow> string \<Rightarrow> string \<Rightarrow> event" where
  "status_line w t colour msg \<equiv>
     ConsoleLog [LogStr (getTimeStamp w t), LogStr (colour @ msg), LogStr resetColor]"

fun is_console_log :: "event \<Rightarrow> bool" where
  "is_console_log (ConsoleLog args) = True"
| "is_console_log e = False"

definition after_last_network_call :: "event list \<Rightarrow> event list" where
  "after_last_network_call tr = rev (takeWhile (\<lambda>e. \<not> is_network_call e) (rev tr))"

text \<open>
  A run stops with error \<open>e\<close> after the network calls \<open>calls\<close>: it makes exactly these
  calls, in this order, does nothing but write to the console after the last of them, and
  the last thing it writes is the error.
\<close>

definition stops_with :: "event list \<Rightarrow> event list \<Rightarrow> js_error \<Rightarrow> bool" where
  "stops_with tr calls e =
     (network_calls tr = calls
      \<and> list_all is_console_log (after_last_network_call tr)
      \<and> last tr = ConsoleLog [LogError e])"

fun upload_paths :: "event list \<Rightarrow> string list" where
  "upload_paths [] = []"
| "upload_paths (PutFileContents c p d # tr) = p # upload_paths tr"
| "upload_paths (e # tr) = upload_paths tr"

fun request_bodies :: "event list \<Rightarrow> string option list" where
  "request_bodies [] = []"
| "request_bodies (Axios c # tr) = data c # request_bodies tr"
| "request_bodies (e # tr) = request_bodies tr"




text \<open>
  axios takes the method of a config in either case and sends it in upper case.
\<close>

definition toUpperCase_char :: "char \<Rightarrow> char" where
  "toUpperCase_char c =
     (case map_of (zip ''abcdefghijklmnopqrstuvwxyz'' ''ABCDEFGHIJKLMNOPQRSTUVWXYZ'') c of
        None \<Rightarrow> c
      | Some upper \<Rightarrow> upper)"

definition http_method :: "axios_config \<Rightarrow> string" where
  "http_method c = map toUpperCase_char (method c)"

section \<open>Example runs\<close>

definition example_bytes :: string where
  "example_bytes =
     [CHR 0x1B, CHR 0x9D, CHR 0x6B, CHR 0xCD, CHR 0xBB, CHR 0xFD, CHR 0xFB, CHR 0x2D,
      CHR 0xDB, CHR 0x5D, CHR 0xAB, CHR 0x8D, CHR 0xFB, CHR 0xBD, CHR 0x4B, CHR 0xED]"

definition other_bytes :: string where
  "other_bytes =
     [CHR 0x6E, CHR 0xC0, CHR 0xBD, CHR 0x7F, CHR 0x11, CHR 0xC0, CHR 0x03, CHR 0xDA,
      CHR 0x57, CHR 0x5E, CHR 0x2A, CHR 0x8A, CHR 0xD9, CHR 0xEB, CHR 0xAE, CHR 0x0B]"

definition fixture_text :: string where
  \<open>fixture_text = ''{"agreement":{"id":"AGR-123"}}''\<close>

text \<open>The scenario of the specification: every call succeeds.\<close>

definition w_ok :: world where
  "w_ok =
     \<lparr>env = map_of
        [(''ADOBE_SIGN_CLIENT_ID'', ''cid''), (''ADOBE_SIGN_CLIENT_SECRET'', ''sec''),
         (''ADOBE_SIGN_REFRESH_TOKEN'', ''rt''), (''CONTENT_MANAGER_USERNAME'', ''user''),
         (''CONTENT_MANAGER_PASSWORD'', ''pass''),
         (''CONTENT_MANAGER_API_BASE_URL'', ''http://cm/api''),
         (''CONTENT_MANAGER_WEBDAV_URL'', ''http://cm/dav''),
         (''ADOBE_SIGN_BASE_URL'', ''https://sign'')],
      readFileSync = (\<lambda>p. if p = ''AdobeSignWebhookExample.json'' then Inr fixture_text
                           else Inl (FsError ''ENOENT'')),
      JSON_parse = (\<lambda>s. if s = fixture_text
                         then Inr (Obj [(''agreement'', Obj [(''id'', Str ''AGR-123'')])])
                         else Inl (SyntaxError ''Unexpected token'')),
      dateFormat_now = (\<lambda>t. ''02-11-2026, 10:00:'' @ show_nat (10 + t)),
      rng = (\<lambda>i. example_bytes ! i),
      refresh_outcome = Inr (Obj [(''access_token'', Str ''tok-abc'')]),
      download_outcome = Inr ''%PDF'',
      create_outcome = Inr (Obj [(''Results'', Arr [Obj [(''Uri'', Str ''/Records/42'')]])]),
      putFileContents_outcome = Inr (),
      attach_outcome = Inr (Obj [])\<rparr>"

text \<open>The request for the document of the agreement \<open>AGR-123\<close> with the token \<open>tok-abc\<close>.\<close>

definition example_download_request :: axios_config where
  "example_download_request =
     \<lparr>method = ''get'',
      url = ''https://sign/api/rest/v6/agreements/AGR-123/combinedDocument?attachSupportingDocuments=false'',
      headers = [(''Authorization'', ''Bearer tok-abc'')],
      responseType = Some ''arraybuffer'',
      data = None\<rparr>"

text \<open>
  The same run with other random bytes, and a run with another document and the same
  random bytes.
\<close>

definition w_ok_again :: world where
  "w_ok_again = w_ok\<lparr>rng := (\<lambda>i. other_bytes ! i)\<rparr>"

definition w_other_document :: world where
  "w_other_document = w_ok\<lparr>download_outcome := Inr ''%PDF-1.7''\<rparr>"

text \<open>Runs in which one promise rejects.\<close>

definition w_refresh_rejected :: world where
  "w_refresh_rejected = w_ok\<lparr>refresh_outcome := Inl (StatusError 401)\<rparr>"

definition w_download_rejected :: world where
  "w_download_rejected = w_ok\<lparr>download_outcome := Inl (StatusError 404)\<rparr>"

definition w_create_rejected :: world where
  "w_create_rejected = w_ok\<lparr>create_outcome := Inl (StatusError 500)\<rparr>"

definition w_put_rejected :: world where
  "w_put_rejected = w_ok\<lparr>putFileContents_outcome := Inl (WebDAVError ''403 Forbidden'')\<rparr>"

definition w_attach_rejected :: world where
  "w_attach_rejected = w_ok\<lparr>attach_outcome := Inl (NetworkError ''ECONNRESET'')\<rparr>"

text \<open>
  Runs in which every promise resolves, with a response body of another shape: the
  refresh answers \<open>null\<close>, \<open>{"access_token":{"toString":1}}\<close>, and a page of HTML, after
  which the download is refused; the record creation answers \<open>{}\<close>, \<open>{"Results":[]}\<close>,
  \<open>{"Results":null}\<close>, \<open>{"Results":5}\<close>, \<open>{"Results":[{}]}\<close> and \<open>{"Results":"abc"}\<close>.
\<close>

definition w_null_body :: world where
  "w_null_body = w_ok\<lparr>refresh_outcome := Inr Null\<rparr>"

definition w_token_object :: world where
  "w_token_object =
     w_ok\<lparr>refresh_outcome := Inr (Obj [(''access_token'', Obj [(''toString'', Num ''1'')])])\<rparr>"

definition w_refresh_not_json :: world where
  "w_refresh_not_json =
     w_ok\<lparr>refresh_outcome := Inr (Str ''<html>Sign in</html>''),
          download_outcome := Inl (StatusError 401)\<rparr>"

definition w_no_results :: world where
  "w_no_results = w_ok\<lparr>create_outcome := Inr (Obj [])\<rparr>"

definition w_empty_results :: world where
  "w_empty_results = w_ok\<lparr>create_outcome := Inr (Obj [(''Results'', Arr [])])\<rparr>"

definition w_results_null :: world where
  "w_results_null = w_ok\<lparr>create_outcome := Inr (Obj [(''Results'', Null)])\<rparr>"

definition w_results_number :: world where
  "w_results_number = w_ok\<lparr>create_outcome := Inr (Obj [(''Results'', Num ''5'')])\<rparr>"

definition w_no_uri :: world where
  "w_no_uri = w_ok\<lparr>create_outcome := Inr (Obj [(''Results'', Arr [Obj []])])\<rparr>"

definition w_results_string :: world where
  "w_results_string = w_ok\<lparr>create_outcome := Inr (Obj [(''Results'', Str ''abc'')])\<rparr>"

text \<open>
  Runs in which the fixture is missing, in which it is not JSON, and in which it is the
  JSON text \<open>{}\<close>.
\<close>

definition w_no_file :: world where
  "w_no_file = w_ok\<lparr>readFileSync := (\<lambda>p. Inl (FsError ''ENOENT''))\<rparr>"

definition w_bad_json :: world where
  "w_bad_json = w_ok\<lparr>readFileSync := (\<lambda>p. Inr ''not json'')\<rparr>"

definition w_no_agreement :: world where
  "w_no_agreement =
     w_ok\<lparr>readFileSync := (\<lambda>p. Inr ''{}''),
          JSON_parse := (\<lambda>s. if s = ''{}'' then Inr (Obj [])
                             else Inl (SyntaxError ''Unexpected token''))\<rparr>"

section \<open>How a run unfolds\<close>

lemmas run_defs = main_def refreshAdobeAccessToken_def downloadAgreementDocument_def
  downloadAgreementDocument_config_def
  createRecord_def uploadDocument_def attachDocument_def
  refreshAdobeAccessToken_catch_def downloadAgreementDocument_catch_def createRecord_catch_def
  uploadDocument_catch_def attachDocument_catch_def log_status_def log_error_def Buffer_from_def
  gblAgreementId_def then_read_def Let_def network_calls_def

lemmas world_defs = w_ok_def w_ok_again_def w_other_document_def w_refresh_rejected_def
  w_download_rejected_def w_create_rejected_def w_put_rejected_def w_attach_rejected_def
  w_null_body_def w_token_object_def w_refresh_not_json_def
  w_no_results_def w_empty_results_def w_results_null_def w_results_number_def w_no_uri_def
  w_results_string_def w_no_file_def w_bad_json_def w_no_agreement_def

lemma refresh_stage_Inr:
  "refresh_stage w = Inr accessToken \<Longrightarrow>
     \<exists>d. refresh_outcome w = Inr d \<and> get_prop d ''access_token'' = Inr accessToken"
  by (auto simp: refresh_stage_def split: sum.splits)

lemma create_stage_Inr:
  "create_stage w = Inr uri \<Longrightarrow>
     \<exists>d. create_outcome w = Inr d
        \<and> then_read (then_read (get_prop d ''Results'') ''0'') ''Uri'' = Inr uri"
  by (auto simp: create_stage_def split: sum.splits)

text \<open>
  With the agreement identifier at hand, each stage that succeeds leaves the run at the
  call of the next stage, after the events listed. The refresh stage succeeds when its
  handler has read the token and \<open>downloadAgreementDocument\<close> has built its request.
\<close>

lemma run_to_download:
  assumes "gblAgreementId w = Inr agreementId" and "refresh_stage w = Inr accessToken"
    and "downloadAgreementDocument_config w accessToken agreementId = Inr request"
  shows "main w =
     (case download_outcome w of
        Inr document \<Rightarrow>
          createRecord w gblCreateRecordJSON document
            [ReadFileSync ''AdobeSignWebhookExample.json'',
             Axios (refreshAdobeAccessToken_config w),
             status_line w 2 green ''Adobe Sign Access Token updated.'',
             Axios request,
             status_line w 4 green ''Document downloaded from Adobe Sign.'']
      | Inl error \<Rightarrow>
          downloadAgreementDocument_catch w error
            [ReadFileSync ''AdobeSignWebhookExample.json'',
             Axios (refreshAdobeAccessToken_config w),
             status_line w 2 green ''Adobe Sign Access Token updated.'',
             Axios request])"
  using assms(1,3) refresh_stage_Inr [OF assms(2)]
  by (auto simp: main_def refreshAdobeAccessToken_def downloadAgreementDocument_def
      log_status_def Buffer_from_def Let_def eval_nat_numeral split: sum.splits)

lemma run_to_create:
  assumes "gblAgreementId w = Inr agreementId" and "refresh_stage w = Inr accessToken"
    and "downloadAgreementDocument_config w accessToken agreementId = Inr request"
    and "download_outcome w = Inr document"
  shows "main w =
     createRecord w gblCreateRecordJSON document
       [ReadFileSync ''AdobeSignWebhookExample.json'',
        Axios (refreshAdobeAccessToken_config w),
        status_line w 2 green ''Adobe Sign Access Token updated.'',
        Axios request,
        status_line w 4 green ''Document downloaded from Adobe Sign.'']"
  using assms(4) by (simp add: run_to_download [OF assms(1-3)])

lemma run_to_upload:
  assumes "gblAgreementId w = Inr agreementId" and "refresh_stage w = Inr accessToken"
    and "downloadAgreementDocument_config w accessToken agreementId = Inr request"
    and "download_outcome w = Inr document" and "create_stage w = Inr uri"
  shows "main w =
     uploadDocument w uri (uuidv4 w @ ''.pdf'') document
       [ReadFileSync ''AdobeSignWebhookExample.json'',
        Axios (refreshAdobeAccessToken_config w),
        status_line w 2 green ''Adobe Sign Access Token updated.'',
        Axios request,
        status_line w 4 green ''Document downloaded from Adobe Sign.'',
        Axios (createRecord_config w gblCreateRecordJSON),
        status_line w 6 green ''New Content Manager record successfully created.'']"
  using create_stage_Inr [OF assms(5)]
  by (auto simp: run_to_create [OF assms(1-4)] createRecord_def log_status_def
      Let_def eval_nat_numeral)

text \<open>What the example runs hand from stage to stage.\<close>

lemma w_ok_id: "gblAgreementId w_ok = Inr (Str ''AGR-123'')"
  by (simp add: gblAgreementId_def w_ok_def then_read_def)

lemma w_ok_refresh: "refresh_stage w_ok = Inr (Str ''tok-abc'')"
  by (simp add: refresh_stage_def w_ok_def)

lemma w_ok_create: "create_stage w_ok = Inr (Str ''/Records/42'')"
  by (simp add: create_stage_def w_ok_def then_read_def indexed_def show_nat.simps)

lemma example_ids:
  "gblAgreementId w_ok_again = Inr (Str ''AGR-123'')"
  "gblAgreementId w_refresh_rejected = Inr (Str ''AGR-123'')"
  "gblAgreementId w_download_rejected = Inr (Str ''AGR-123'')"
  "gblAgreementId w_create_rejected = Inr (Str ''AGR-123'')"
  "gblAgreementId w_put_rejected = Inr (Str ''AGR-123'')"
  "gblAgreementId w_attach_rejected = Inr (Str ''AGR-123'')"
  "gblAgreementId w_null_body = Inr (Str ''AGR-123'')"
  "gblAgreementId w_no_results = Inr (Str ''AGR-123'')"
  "gblAgreementId w_empty_results = Inr (Str ''AGR-123'')"
  "gblAgreementId w_no_uri = Inr (Str ''AGR-123'')"
  "gblAgreementId w_results_string = Inr (Str ''AGR-123'')"
  "gblAgreementId w_results_null = Inr (Str ''AGR-123'')"
  "gblAgreementId w_results_number = Inr (Str ''AGR-123'')"
  "gblAgreementId w_token_object = Inr (Str ''AGR-123'')"
  "gblAgreementId w_other_document = Inr (Str ''AGR-123'')"
  by (simp_all add: gblAgreementId_def world_defs then_read_def)

lemma example_refreshes:
  "refresh_stage w_ok_again = Inr (Str ''tok-abc'')"
  "refresh_stage w_refresh_rejected = Inl (StatusError 401)"
  "refresh_stage w_download_rejected = Inr (Str ''tok-abc'')"
  "refresh_stage w_create_rejected = Inr (Str ''tok-abc'')"
  "refresh_stage w_put_rejected = Inr (Str ''tok-abc'')"
  "refresh_stage w_attach_rejected = Inr (Str ''tok-abc'')"
  "refresh_stage w_null_body = Inl (TypeError ''access_token'')"
  "refresh_stage w_no_results = Inr (Str ''tok-abc'')"
  "refresh_stage w_empty_results = Inr (Str ''tok-abc'')"
  "refresh_stage w_no_uri = Inr (Str ''tok-abc'')"
  "refresh_stage w_results_string = Inr (Str ''tok-abc'')"
  "refresh_stage w_results_null = Inr (Str ''tok-abc'')"
  "refresh_stage w_results_number = Inr (Str ''tok-abc'')"
  "refresh_stage w_token_object = Inr (Obj [(''toString'', Num ''1'')])"
  "refresh_stage w_other_document = Inr (Str ''tok-abc'')"
  by (simp_all add: refresh_stage_def world_defs)

lemma example_requests:
  "downloadAgreementDocument_config w_ok (Str ''tok-abc'') (Str ''AGR-123'') =
     Inr example_download_request"
  "downloadAgreementDocument_config w_ok_again (Str ''tok-abc'') (Str ''AGR-123'') =
     Inr example_download_request"
  "downloadAgreementDocument_config w_download_rejected (Str ''tok-abc'') (Str ''AGR-123'') =
     Inr example_download_request"
  "downloadAgreementDocument_config w_create_rejected (Str ''tok-abc'') (Str ''AGR-123'') =
     Inr example_download_request"
  "downloadAgreementDocument_config w_put_rejected (Str ''tok-abc'') (Str ''AGR-123'') =
     Inr example_download_request"
  "downloadAgreementDocument_config w_attach_rejected (Str ''tok-abc'') (Str ''AGR-123'') =
     Inr example_download_request"
  "downloadAgreementDocument_config w_no_results (Str ''tok-abc'') (Str ''AGR-123'') =
     Inr example_download_request"
  "downloadAgreementDocument_config w_empty_results (Str ''tok-abc'') (Str ''AGR-123'') =
     Inr example_download_request"
  "downloadAgreementDocument_config w_no_uri (Str ''tok-abc'') (Str ''AGR-123'') =
     Inr example_download_request"
  "downloadAgreementDocument_config w_results_string (Str ''tok-abc'') (Str ''AGR-123'') =
     Inr example_download_request"
  "downloadAgreementDocument_config w_results_null (Str ''tok-abc'') (Str ''AGR-123'') =
     Inr example_download_request"
  "downloadAgreementDocument_config w_results_number (Str ''tok-abc'') (Str ''AGR-123'') =
     Inr example_download_request"
  "downloadAgreementDocument_config w_other_document (Str ''tok-abc'') (Str ''AGR-123'') =
     Inr example_download_request"
  "downloadAgreementDocument_config w_token_object (Obj [(''toString'', Num ''1'')])
     (Str ''AGR-123'') = Inl NotPrimitive"
  by (simp_all add: downloadAgreementDocument_config_def adobeSignBaseUrl_def world_defs
      example_download_request_def)

lemma example_downloads:
  "download_outcome w_ok = Inr ''%PDF''"
  "download_outcome w_ok_again = Inr ''%PDF''"
  "download_outcome w_download_rejected = Inl (StatusError 404)"
  "download_outcome w_create_rejected = Inr ''%PDF''"
  "download_outcome w_put_rejected = Inr ''%PDF''"
  "download_outcome w_attach_rejected = Inr ''%PDF''"
  "download_outcome w_no_results = Inr ''%PDF''"
  "download_outcome w_empty_results = Inr ''%PDF''"
  "download_outcome w_no_uri = Inr ''%PDF''"
  "download_outcome w_results_string = Inr ''%PDF''"
  "download_outcome w_results_null = Inr ''%PDF''"
  "download_outcome w_results_number = Inr ''%PDF''"
  "download_outcome w_other_document = Inr ''%PDF-1.7''"
  by (simp_all add: world_defs)

lemma example_creates:
  "create_stage w_ok_again = Inr (Str ''/Records/42'')"
  "create_stage w_create_rejected = Inl (StatusError 500)"
  "create_stage w_put_rejected = Inr (Str ''/Records/42'')"
  "create_stage w_attach_rejected = Inr (Str ''/Records/42'')"
  "create_stage w_no_results = Inl (TypeError ''0'')"
  "create_stage w_empty_results = Inl (TypeError ''Uri'')"
  "create_stage w_no_uri = Inr Undefined"
  "create_stage w_results_string = Inr Undefined"
  "create_stage w_other_document = Inr (Str ''/Records/42'')"
  by (simp_all add: create_stage_def world_defs then_read_def indexed_def show_nat.simps
      upt_conv_Cons)

lemma example_uploads:
  "putFileContents_outcome w_ok = Inr ()"
  "putFileContents_outcome w_put_rejected = Inl (WebDAVError ''403 Forbidden'')"
  "putFileContents_outcome w_attach_rejected = Inr ()"
  "putFileContents_outcome w_no_uri = Inr ()"
  "putFileContents_outcome w_results_string = Inr ()"
  "attach_outcome w_ok = Inr (Obj [])"
  "attach_outcome w_attach_rejected = Inl (NetworkError ''ECONNRESET'')"
  "attach_outcome w_no_uri = Inr (Obj [])"
  "attach_outcome w_results_string = Inr (Obj [])"
  by (simp_all add: world_defs)

lemma example_uuids:
  "uuidv4 w_ok = ''1b9d6bcd-bbfd-4b2d-9b5d-ab8dfbbd4bed''"
  "uuidv4 w_ok_again = ''6ec0bd7f-11c0-43da-975e-2a8ad9ebae0b''"
  "uuidv4 w_other_document = ''1b9d6bcd-bbfd-4b2d-9b5d-ab8dfbbd4bed''"
  "uuidv4 w_put_rejected = ''1b9d6bcd-bbfd-4b2d-9b5d-ab8dfbbd4bed''"
  "uuidv4 w_attach_rejected = ''1b9d6bcd-bbfd-4b2d-9b5d-ab8dfbbd4bed''"
  "uuidv4 w_no_uri = ''1b9d6bcd-bbfd-4b2d-9b5d-ab8dfbbd4bed''"
  "uuidv4 w_results_string = ''1b9d6bcd-bbfd-4b2d-9b5d-ab8dfbbd4bed''"
  by (simp_all add: uuidv4_def unsafeStringify_def v4_rnds_def hex2_def Let_def world_defs
      example_bytes_def other_bytes_def)

lemma not_json_token:
  "get_prop (Str ''<html>Sign in</html>'') ''access_token'' = Inr Undefined"
  by (simp add: indexed_def show_nat.simps upt_conv_Cons)

lemma not_json_refresh: "refresh_stage w_refresh_not_json = Inr Undefined"
  by (simp add: refresh_stage_def w_refresh_not_json_def w_ok_def then_read_def not_json_token
      del: get_prop.simps)

lemma not_json_id: "gblAgreementId w_refresh_not_json = Inr (Str ''AGR-123'')"
  by (simp add: gblAgreementId_def w_refresh_not_json_def w_ok_def then_read_def)

lemma not_json_request:
  "downloadAgreementDocument_config w_refresh_not_json Undefined (Str ''AGR-123'') =
     Inr \<lparr>method = ''get'',
          url = ''https://sign/api/rest/v6/agreements/AGR-123/combinedDocument?attachSupportingDocuments=false'',
          headers = [(''Authorization'', ''Bearer undefined'')],
          responseType = Some ''arraybuffer'',
          data = None\<rparr>"
  by (simp add: downloadAgreementDocument_config_def w_refresh_not_json_def w_ok_def
      adobeSignBaseUrl_def)

text \<open>
  Every stage begins with its request: whatever the outcome, the events it adds start with
  the call.
\<close>

lemma attachDocument_starts:
  "\<exists>rest. attachDocument w jsonData tr = tr @ Axios (attachDocument_config w jsonData) # rest"
  by (simp add: attachDocument_def attachDocument_catch_def log_status_def log_error_def Let_def
      split: sum.splits)

lemma uploadDocument_starts:
  "\<exists>rest. uploadDocument w uri filename document tr =
     tr @ PutFileContents
            (createClient (contentManagerWedDAVUrl w) (contentManagerUsername w)
               (contentManagerPassword w)) (''/'' @ filename) document # rest"
proof (cases "putFileContents_outcome w")
  case (Inl e)
  then show ?thesis
    by (simp add: uploadDocument_def uploadDocument_catch_def log_status_def log_error_def Let_def)
next
  case (Inr stored)
  obtain rest where "attachDocument w (Obj [(''Uri'', uri), (''RecordFilePath'', Str filename)])
      (log_status w green ''Document successfully transferred to WebDAV folder.''
         (tr @ [PutFileContents
            (createClient (contentManagerWedDAVUrl w) (contentManagerUsername w)
               (contentManagerPassword w)) (''/'' @ filename) document]))
     = log_status w green ''Document successfully transferred to WebDAV folder.''
         (tr @ [PutFileContents
            (createClient (contentManagerWedDAVUrl w) (contentManagerUsername w)
               (contentManagerPassword w)) (''/'' @ filename) document])
       @ Axios (attachDocument_config w (Obj [(''Uri'', uri), (''RecordFilePath'', Str filename)])) # rest"
    using attachDocument_starts by blast
  with Inr show ?thesis
    by (simp add: uploadDocument_def log_status_def Let_def)
qed

lemma createRecord_starts:
  "\<exists>rest. createRecord w jsonData document tr = tr @ Axios (createRecord_config w jsonData) # rest"
proof (cases "create_outcome w")
  case (Inl e)
  then show ?thesis
    by (simp add: createRecord_def createRecord_catch_def log_status_def log_error_def Let_def)
next
  case (Inr body)
  show ?thesis
  proof (cases "then_read (then_read (get_prop body ''Results'') ''0'') ''Uri''")
    case (Inl e)
    with Inr show ?thesis
      by (simp add: createRecord_def createRecord_catch_def log_status_def log_error_def Let_def)
  next
    case (Inr uri)
    obtain rest where "uploadDocument w uri (uuidv4 w @ ''.pdf'') document
        (log_status w green ''New Content Manager record successfully created.''
           (tr @ [Axios (createRecord_config w jsonData)]))
      = log_status w green ''New Content Manager record successfully created.''
           (tr @ [Axios (createRecord_config w jsonData)])
        @ PutFileContents
            (createClient (contentManagerWedDAVUrl w) (contentManagerUsername w)
               (contentManagerPassword w)) (''/'' @ (uuidv4 w @ ''.pdf'')) document # rest"
      using uploadDocument_starts by blast
    with Inr \<open>create_outcome w = Inr body\<close> show ?thesis
      by (simp add: createRecord_def log_status_def Let_def)
  qed
qed

lemma downloadAgreementDocument_starts:
  assumes "downloadAgreementDocument_config w accessToken agreementId = Inr request"
  shows "\<exists>rest. downloadAgreementDocument w accessToken agreementId tr =
     Inr (tr @ Axios request # rest)"
proof (cases "download_outcome w")
  case (Inl e)
  with assms show ?thesis
    by (simp add: downloadAgreementDocument_def downloadAgreementDocument_catch_def
        log_status_def log_error_def Let_def)
next
  case (Inr document)
  obtain rest where "createRecord w gblCreateRecordJSON (Buffer_from document)
      (log_status w green ''Document downloaded from Adobe Sign.'' (tr @ [Axios request]))
    = log_status w green ''Document downloaded from Adobe Sign.'' (tr @ [Axios request])
      @ Axios (createRecord_config w gblCreateRecordJSON) # rest"
    using createRecord_starts by blast
  with Inr assms show ?thesis
    by (simp add: downloadAgreementDocument_def log_status_def Let_def)
qed

lemma refreshAdobeAccessToken_starts:
  "\<exists>rest. refreshAdobeAccessToken w agreementId tr =
     tr @ Axios (refreshAdobeAccessToken_config w) # rest"
proof (cases "refresh_outcome w")
  case (Inl e)
  then show ?thesis
    by (simp add: refreshAdobeAccessToken_def refreshAdobeAccessToken_catch_def
        log_status_def log_error_def Let_def)
next
  case (Inr body)
  show ?thesis
  proof (cases "get_prop body ''access_token''")
    case (Inl e)
    with Inr show ?thesis
      by (simp add: refreshAdobeAccessToken_def refreshAdobeAccessToken_catch_def
          log_status_def log_error_def Let_def)
  next
    case token: (Inr accessToken)
    show ?thesis
    proof (cases "downloadAgreementDocument_config w accessToken agreementId")
      case (Inl e)
      with token Inr show ?thesis
        by (simp add: refreshAdobeAccessToken_def refreshAdobeAccessToken_catch_def
            downloadAgreementDocument_def log_status_def log_error_def Let_def)
    next
      case request: (Inr request)
      obtain rest where "downloadAgreementDocument w accessToken agreementId
          (log_status w green ''Adobe Sign Access Token updated.''
             (tr @ [Axios (refreshAdobeAccessToken_config w)]))
        = Inr (log_status w green ''Adobe Sign Access Token updated.''
             (tr @ [Axios (refreshAdobeAccessToken_config w)])
          @ Axios request # rest)"
        using downloadAgreementDocument_starts [OF request] by blast
      with token Inr show ?thesis
        by (simp add: refreshAdobeAccessToken_def log_status_def Let_def)
    qed
  qed
qed

text \<open>A property read throws exactly on \<open>undefined\<close> and \<open>null\<close>.\<close>

lemma get_prop_throws:
  "(get_prop v k = Inl e) = ((v = Undefined \<or> v = Null) \<and> e = TypeError k)"
  by (cases v) (auto split: option.splits)

lemma then_read_throws:
  "(then_read r k = Inl e) =
     (r = Inl e \<or> (r = Inr Undefined \<or> r = Inr Null) \<and> e = TypeError k)"
  by (cases r) (auto simp: then_read_def get_prop_throws)

lemma JSON_stringify_undefined: "(JSON_stringify v = None) = (v = Undefined)"
  by (cases v) simp_all

text \<open>
  The request of the download is built exactly when both conversions give a string, and
  then it holds the two strings.
\<close>

lemma download_config_built:
  "(downloadAgreementDocument_config w accessToken agreementId = Inr request) =
     (\<exists>agreementId_text accessToken_text.
        to_string agreementId = Inr agreementId_text
        \<and> to_string accessToken = Inr accessToken_text
        \<and> request =
           \<lparr>method = ''get'',
            url = env_string (adobeSignBaseUrl w) @ ''/api/rest/v6/agreements/''
                    @ agreementId_text
                    @ ''/combinedDocument?attachSupportingDocuments=false'',
            headers = [(''Authorization'', ''Bearer '' @ accessToken_text)],
            responseType = Some ''arraybuffer'',
            data = None\<rparr>)"
  by (auto simp: downloadAgreementDocument_config_def split: sum.splits)












lemmas stops_defs = stops_with_def network_calls_def after_last_network_call_def

section \<open>The order of the stages\<close>

text \<open>
  Claim C1, as amended. In every run in which the fixture gives the agreement identifier,
  every promise resolves and no success handler throws (the refresh handler reads an
  access token, the token and the agreement identifier convert to strings in the request
  of the download, and the record creation has a \<open>Results[0].Uri\<close> to read), the run is
  exactly: the refresh request, the download request, the record creation, the WebDAV
  upload and the attach request, in this order, each request after the first one issued
  right after the status line that the success handler of the stage before it writes
  first.
\<close>

theorem stages_in_order:
  assumes "gblAgreementId w = Inr agreementId"
    and "refresh_stage w = Inr accessToken"
    and "downloadAgreementDocument_config w accessToken agreementId = Inr request"
    and "download_outcome w = Inr document"
    and "create_stage w = Inr uri"
    and "putFileContents_outcome w = Inr stored"
    and "attach_outcome w = Inr attached"
  shows "main w =
     [ReadFileSync ''AdobeSignWebhookExample.json'',
      Axios (refreshAdobeAccessToken_config w),
      status_line w 2 green ''Adobe Sign Access Token updated.'',
      Axios request,
      status_line w 4 green ''Document downloaded from Adobe Sign.'',
      Axios (createRecord_config w gblCreateRecordJSON),
      status_line w 6 green ''New Content Manager record successfully created.'',
      PutFileContents
        (createClient (contentManagerWedDAVUrl w) (contentManagerUsername w)
           (contentManagerPassword w))
        (''/'' @ uuidv4 w @ ''.pdf'') document,
      status_line w 8 green ''Document successfully transferred to WebDAV folder.'',
      Axios (attachDocument_config w
               (Obj [(''Uri'', uri), (''RecordFilePath'', Str (uuidv4 w @ ''.pdf''))])),
      status_line w 10 green ''Document successfully attached to the Content Manager record.'']"
  using assms(6,7)
  by (simp add: run_to_upload [OF assms(1-5)] uploadDocument_def attachDocument_def
      log_status_def Let_def eval_nat_numeral)

text \<open>The scenario of the specification is such a run.\<close>

theorem stages_in_order_witness:
  "main w_ok =
     [ReadFileSync ''AdobeSignWebhookExample.json'',
      Axios (refreshAdobeAccessToken_config w_ok),
      status_line w_ok 2 green ''Adobe Sign Access Token updated.'',
      Axios example_download_request,
      status_line w_ok 4 green ''Document downloaded from Adobe Sign.'',
      Axios (createRecord_config w_ok gblCreateRecordJSON),
      status_line w_ok 6 green ''New Content Manager record successfully created.'',
      PutFileContents
        \<lparr>remoteURL = Some ''http://cm/dav'', username = Some ''user'', password = Some ''pass''\<rparr>
        ''/1b9d6bcd-bbfd-4b2d-9b5d-ab8dfbbd4bed.pdf'' ''%PDF'',
      status_line w_ok 8 green ''Document successfully transferred to WebDAV folder.'',
      Axios (attachDocument_config w_ok
               (Obj [(''Uri'', Str ''/Records/42''),
                     (''RecordFilePath'', Str ''1b9d6bcd-bbfd-4b2d-9b5d-ab8dfbbd4bed.pdf'')])),
      status_line w_ok 10 green ''Document successfully attached to the Content Manager record.'']"
proof -
  have client: "createClient (contentManagerWedDAVUrl w_ok) (contentManagerUsername w_ok)
      (contentManagerPassword w_ok) =
    \<lparr>remoteURL = Some ''http://cm/dav'', username = Some ''user'', password = Some ''pass''\<rparr>"
    by (simp add: createClient_def contentManagerWedDAVUrl_def contentManagerUsername_def
        contentManagerPassword_def w_ok_def)
  from stages_in_order [OF w_ok_id w_ok_refresh example_requests(1) example_downloads(1)
      w_ok_create example_uploads(1) example_uploads(6)]
  show ?thesis
    by (simp add: client example_uuids(1))
qed

text \<open>
  Claim C1 as it is written fails: when the record creation answers \<open>{}\<close>, every call
  that is made succeeds, and the run stops after the record creation, without upload or
  attach request.
\<close>

theorem stages_in_order_counterexample:
  "gblAgreementId w_no_results = Inr (Str ''AGR-123'')
   \<and> refresh_outcome w_no_results = Inr (Obj [(''access_token'', Str ''tok-abc'')])
   \<and> download_outcome w_no_results = Inr ''%PDF''
   \<and> create_outcome w_no_results = Inr (Obj [])
   \<and> putFileContents_outcome w_no_results = Inr ()
   \<and> attach_outcome w_no_results = Inr (Obj [])
   \<and> network_calls (main w_no_results) =
       [Axios (refreshAdobeAccessToken_config w_no_results),
        Axios example_download_request,
        Axios (createRecord_config w_no_results gblCreateRecordJSON)]"
  by (simp add: run_defs world_defs adobeSignBaseUrl_def example_download_request_def)

section \<open>Failures\<close>

text \<open>
  Claim C2, as amended. A stage fails when its promise rejects (axios rejects on a network
  error and on a status outside 2xx) or when its success handler throws: while reading the
  response, or, for the refresh stage, while converting the token and the agreement
  identifier to strings for the request of the download. The error \<open>e\<close> then reaches the
  \<open>catch\<close> handler of the stage. In every run that has the agreement identifier, whichever
  stage fails, the network calls of the run are exactly the calls up to the one of the
  failing stage: no later stage is invoked. After that call the run only writes to the
  console, and it ends with the error. A response body that is not JSON is no failure of
  its own: the promise resolves with the text.
\<close>

theorem failure_stops_chain:
  assumes "gblAgreementId w = Inr agreementId"
  shows
   "(refresh_stage w = Inl e \<longrightarrow>
       stops_with (main w) [Axios (refreshAdobeAccessToken_config w)] e)
    \<and> (refresh_stage w = Inr accessToken
        \<and> downloadAgreementDocument_config w accessToken agreementId = Inl e \<longrightarrow>
       stops_with (main w) [Axios (refreshAdobeAccessToken_config w)] e)
    \<and> (refresh_stage w = Inr accessToken
        \<and> downloadAgreementDocument_config w accessToken agreementId = Inr request
        \<and> download_outcome w = Inl e \<longrightarrow>
       stops_with (main w)
         [Axios (refreshAdobeAccessToken_config w), Axios request] e)
    \<and> (refresh_stage w = Inr accessToken
        \<and> downloadAgreementDocument_config w accessToken agreementId = Inr request
        \<and> download_outcome w = Inr document
        \<and> create_stage w = Inl e \<longrightarrow>
       stops_with (main w)
         [Axios (refreshAdobeAccessToken_config w), Axios request,
          Axios (createRecord_config w gblCreateRecordJSON)] e)
    \<and> (refresh_stage w = Inr accessToken
        \<and> downloadAgreementDocument_config w accessToken agreementId = Inr request
        \<and> download_outcome w = Inr document
        \<and> create_stage w = Inr uri \<and> putFileContents_outcome w = Inl e \<longrightarrow>
       stops_with (main w)
         [Axios (refreshAdobeAccessToken_config w), Axios request,
          Axios (createRecord_config w gblCreateRecordJSON),
          PutFileContents
            (createClient (contentManagerWedDAVUrl w) (contentManagerUsername w)
               (contentManagerPassword w))
            (''/'' @ uuidv4 w @ ''.pdf'') document] e)
    \<and> (refresh_stage w = Inr accessToken
        \<and> downloadAgreementDocument_config w accessToken agreementId = Inr request
        \<and> download_outcome w = Inr document
        \<and> create_stage w = Inr uri \<and> putFileContents_outcome w = Inr stored
        \<and> attach_outcome w = Inl e \<longrightarrow>
       stops_with (main w)
         [Axios (refreshAdobeAccessToken_config w), Axios request,
          Axios (createRecord_config w gblCreateRecordJSON),
          PutFileContents
            (createClient (contentManagerWedDAVUrl w) (contentManagerUsername w)
               (contentManagerPassword w))
            (''/'' @ uuidv4 w @ ''.pdf'') document,
          Axios (attachDocument_config w
                   (Obj [(''Uri'', uri), (''RecordFilePath'', Str (uuidv4 w @ ''.pdf''))]))] e)"
proof (intro conjI impI)
  assume "refresh_stage w = Inl e"
  then show "stops_with (main w) [Axios (refreshAdobeAccessToken_config w)] e"
    using assms
    by (auto simp: refresh_stage_def main_def refreshAdobeAccessToken_def
        refreshAdobeAccessToken_catch_def log_status_def log_error_def Let_def stops_defs
        split: sum.splits)
next
  assume a: "refresh_stage w = Inr accessToken
      \<and> downloadAgreementDocument_config w accessToken agreementId = Inl e"
  then obtain d where "refresh_outcome w = Inr d" "get_prop d ''access_token'' = Inr accessToken"
    using refresh_stage_Inr by blast
  with a show "stops_with (main w) [Axios (refreshAdobeAccessToken_config w)] e"
    using assms
    by (simp add: main_def refreshAdobeAccessToken_def downloadAgreementDocument_def
        refreshAdobeAccessToken_catch_def log_status_def log_error_def Let_def stops_defs)
next
  assume "refresh_stage w = Inr accessToken
      \<and> downloadAgreementDocument_config w accessToken agreementId = Inr request
      \<and> download_outcome w = Inl e"
  then show "stops_with (main w)
         [Axios (refreshAdobeAccessToken_config w), Axios request] e"
    by (simp add: run_to_download [OF assms] downloadAgreementDocument_catch_def
        log_status_def log_error_def stops_defs)
next
  assume a: "refresh_stage w = Inr accessToken
      \<and> downloadAgreementDocument_config w accessToken agreementId = Inr request
      \<and> download_outcome w = Inr document
      \<and> create_stage w = Inl e"
  then have "main w = createRecord w gblCreateRecordJSON document
       [ReadFileSync ''AdobeSignWebhookExample.json'',
        Axios (refreshAdobeAccessToken_config w),
        status_line w 2 green ''Adobe Sign Access Token updated.'',
        Axios request,
        status_line w 4 green ''Document downloaded from Adobe Sign.'']"
    by (simp add: run_to_create [OF assms])
  with a show "stops_with (main w)
         [Axios (refreshAdobeAccessToken_config w), Axios request,
          Axios (createRecord_config w gblCreateRecordJSON)] e"
    by (auto simp: create_stage_def createRecord_def createRecord_catch_def log_status_def
        log_error_def Let_def stops_defs split: sum.splits)
next
  assume "refresh_stage w = Inr accessToken
      \<and> downloadAgreementDocument_config w accessToken agreementId = Inr request
      \<and> download_outcome w = Inr document
      \<and> create_stage w = Inr uri \<and> putFileContents_outcome w = Inl e"
  then show "stops_with (main w)
         [Axios (refreshAdobeAccessToken_config w), Axios request,
          Axios (createRecord_config w gblCreateRecordJSON),
          PutFileContents
            (createClient (contentManagerWedDAVUrl w) (contentManagerUsername w)
               (contentManagerPassword w))
            (''/'' @ uuidv4 w @ ''.pdf'') document] e"
    by (simp add: run_to_upload [OF assms] uploadDocument_def uploadDocument_catch_def
        log_status_def log_error_def Let_def stops_defs)
next
  assume "refresh_stage w = Inr accessToken
      \<and> downloadAgreementDocument_config w accessToken agreementId = Inr request
      \<and> download_outcome w = Inr document
      \<and> create_stage w = Inr uri \<and> putFileContents_outcome w = Inr stored
      \<and> attach_outcome w = Inl e"
  then show "stops_with (main w)
         [Axios (refreshAdobeAccessToken_config w), Axios request,
          Axios (createRecord_config w gblCreateRecordJSON),
          PutFileContents
            (createClient (contentManagerWedDAVUrl w) (contentManagerUsername w)
               (contentManagerPassword w))
            (''/'' @ uuidv4 w @ ''.pdf'') document,
          Axios (attachDocument_config w
                   (Obj [(''Uri'', uri), (''RecordFilePath'', Str (uuidv4 w @ ''.pdf''))]))] e"
    by (simp add: run_to_upload [OF assms] uploadDocument_def attachDocument_def
        attachDocument_catch_def log_status_def log_error_def Let_def stops_defs)
qed

text \<open>
  A rejected promise at each of the five stages, and a refresh whose token does not
  convert to a string.
\<close>

theorem failure_stops_chain_witness:
  "stops_with (main w_refresh_rejected)
     [Axios (refreshAdobeAccessToken_config w_refresh_rejected)] (StatusError 401)
   \<and> stops_with (main w_token_object)
     [Axios (refreshAdobeAccessToken_config w_token_object)] NotPrimitive
   \<and> stops_with (main w_download_rejected)
     [Axios (refreshAdobeAccessToken_config w_download_rejected),
      Axios example_download_request]
     (StatusError 404)
   \<and> stops_with (main w_create_rejected)
     [Axios (refreshAdobeAccessToken_config w_create_rejected),
      Axios example_download_request,
      Axios (createRecord_config w_create_rejected gblCreateRecordJSON)]
     (StatusError 500)
   \<and> stops_with (main w_put_rejected)
     [Axios (refreshAdobeAccessToken_config w_put_rejected),
      Axios example_download_request,
      Axios (createRecord_config w_put_rejected gblCreateRecordJSON),
      PutFileContents
        (createClient (contentManagerWedDAVUrl w_put_rejected)
           (contentManagerUsername w_put_rejected) (contentManagerPassword w_put_rejected))
        ''/1b9d6bcd-bbfd-4b2d-9b5d-ab8dfbbd4bed.pdf'' ''%PDF'']
     (WebDAVError ''403 Forbidden'')
   \<and> stops_with (main w_attach_rejected)
     [Axios (refreshAdobeAccessToken_config w_attach_rejected),
      Axios example_download_request,
      Axios (createRecord_config w_attach_rejected gblCreateRecordJSON),
      PutFileContents
        (createClient (contentManagerWedDAVUrl w_attach_rejected)
           (contentManagerUsername w_attach_rejected) (contentManagerPassword w_attach_rejected))
        ''/1b9d6bcd-bbfd-4b2d-9b5d-ab8dfbbd4bed.pdf'' ''%PDF'',
      Axios (attachDocument_config w_attach_rejected
               (Obj [(''Uri'', Str ''/Records/42''),
                     (''RecordFilePath'', Str ''1b9d6bcd-bbfd-4b2d-9b5d-ab8dfbbd4bed.pdf'')]))]
     (NetworkError ''ECONNRESET'')"
  using
    failure_stops_chain [OF example_ids(2), where e = "StatusError 401"]
    failure_stops_chain [OF example_ids(14), where e = NotPrimitive
      and accessToken = "Obj [(''toString'', Num ''1'')]"]
    failure_stops_chain [OF example_ids(3), where e = "StatusError 404"
      and accessToken = "Str ''tok-abc''" and request = example_download_request]
    failure_stops_chain [OF example_ids(4), where e = "StatusError 500"
      and accessToken = "Str ''tok-abc''" and request = example_download_request
      and document = "''%PDF''"]
    failure_stops_chain [OF example_ids(5), where e = "WebDAVError ''403 Forbidden''"
      and accessToken = "Str ''tok-abc''" and request = example_download_request
      and document = "''%PDF''" and uri = "Str ''/Records/42''"]
    failure_stops_chain [OF example_ids(6), where e = "NetworkError ''ECONNRESET''"
      and accessToken = "Str ''tok-abc''" and request = example_download_request
      and document = "''%PDF''" and uri = "Str ''/Records/42''" and stored = "()"]
  by (simp add: example_refreshes example_requests example_downloads example_creates
      example_uploads example_uuids)

text \<open>
  Claim C2 as it is written fails for a parse error: when the refresh answers with a page
  of HTML, nothing rejects and nothing throws, the token read from the text is
  \<open>undefined\<close>, and the download is requested with it.
\<close>

theorem failure_stops_chain_counterexample:
  "refresh_outcome w_refresh_not_json = Inr (Str ''<html>Sign in</html>'')
   \<and> network_calls (main w_refresh_not_json) =
       [Axios (refreshAdobeAccessToken_config w_refresh_not_json),
        Axios \<lparr>method = ''get'',
               url = ''https://sign/api/rest/v6/agreements/AGR-123/combinedDocument?attachSupportingDocuments=false'',
               headers = [(''Authorization'', ''Bearer undefined'')],
               responseType = Some ''arraybuffer'',
               data = None\<rparr>]"
proof -
  have body: "refresh_outcome w_refresh_not_json = Inr (Str ''<html>Sign in</html>'')"
    by (simp add: w_refresh_not_json_def)
  have "download_outcome w_refresh_not_json = Inl (StatusError 401)"
    by (simp add: w_refresh_not_json_def)
  then have "network_calls (main w_refresh_not_json) =
       [Axios (refreshAdobeAccessToken_config w_refresh_not_json),
        Axios \<lparr>method = ''get'',
               url = ''https://sign/api/rest/v6/agreements/AGR-123/combinedDocument?attachSupportingDocuments=false'',
               headers = [(''Authorization'', ''Bearer undefined'')],
               responseType = Some ''arraybuffer'',
               data = None\<rparr>]"
    by (simp add: run_to_download [OF not_json_id not_json_refresh not_json_request]
        downloadAgreementDocument_catch_def log_status_def log_error_def network_calls_def)
  with body show ?thesis
    by (intro conjI)
qed

section \<open>The attach payload\<close>

text \<open>
  Claim C3, as amended. In every run that reaches the attach stage (the token and the
  agreement identifier convert to strings, the download, the record creation and the
  upload succeed, and \<open>Results[0].Uri\<close> can be read), the attach request
  carries \<open>JSON.stringify({Uri: uri, RecordFilePath: filename})\<close>, where \<open>uri\<close> is
  \<open>response.data.Results[0].Uri\<close> of the record creation and \<open>filename\<close> is the name
  the WebDAV upload used after its leading \<open>/\<close>. The body has the two fields \<open>Uri\<close> and
  \<open>RecordFilePath\<close> exactly when \<open>uri\<close> is not \<open>undefined\<close>; for a string \<open>uri\<close> the
  field \<open>Uri\<close> is that string, quoted. When \<open>Results[0]\<close> has no \<open>Uri\<close>, the body has
  the field \<open>RecordFilePath\<close> only.
\<close>

theorem attach_payload:
  assumes "gblAgreementId w = Inr agreementId"
    and "refresh_stage w = Inr accessToken"
    and "downloadAgreementDocument_config w accessToken agreementId = Inr request"
    and "download_outcome w = Inr document"
    and "create_stage w = Inr uri"
    and "putFileContents_outcome w = Inr stored"
  shows
   "network_calls (main w) =
      [Axios (refreshAdobeAccessToken_config w),
       Axios request,
       Axios (createRecord_config w gblCreateRecordJSON),
       PutFileContents
         (createClient (contentManagerWedDAVUrl w) (contentManagerUsername w)
            (contentManagerPassword w))
         (''/'' @ uuidv4 w @ ''.pdf'') document,
       Axios (attachDocument_config w
                (Obj [(''Uri'', uri), (''RecordFilePath'', Str (uuidv4 w @ ''.pdf''))]))]
    \<and> data (attachDocument_config w
               (Obj [(''Uri'', uri), (''RecordFilePath'', Str (uuidv4 w @ ''.pdf''))])) =
        Some (''{''
              @ (case JSON_stringify uri of
                   None \<Rightarrow> []
                 | Some u \<Rightarrow> quote ''Uri'' @ '':'' @ u @ '','')
              @ quote ''RecordFilePath'' @ '':'' @ quote (uuidv4 w @ ''.pdf'') @ ''}'')
    \<and> (JSON_stringify uri = None) = (uri = Undefined)
    \<and> (uri = Str s \<longrightarrow> JSON_stringify uri = Some (quote s))"
proof (intro conjI)
  show "network_calls (main w) =
      [Axios (refreshAdobeAccessToken_config w),
       Axios request,
       Axios (createRecord_config w gblCreateRecordJSON),
       PutFileContents
         (createClient (contentManagerWedDAVUrl w) (contentManagerUsername w)
            (contentManagerPassword w))
         (''/'' @ uuidv4 w @ ''.pdf'') document,
       Axios (attachDocument_config w
                (Obj [(''Uri'', uri), (''RecordFilePath'', Str (uuidv4 w @ ''.pdf''))]))]"
    using assms(6)
    by (simp add: run_to_upload [OF assms(1-5)] uploadDocument_def attachDocument_def
        attachDocument_catch_def log_status_def log_error_def Let_def network_calls_def
        split: sum.splits)
  show "data (attachDocument_config w
               (Obj [(''Uri'', uri), (''RecordFilePath'', Str (uuidv4 w @ ''.pdf''))])) =
        Some (''{''
              @ (case JSON_stringify uri of
                   None \<Rightarrow> []
                 | Some u \<Rightarrow> quote ''Uri'' @ '':'' @ u @ '','')
              @ quote ''RecordFilePath'' @ '':'' @ quote (uuidv4 w @ ''.pdf'') @ ''}'')"
    by (simp add: attachDocument_config_def split: option.splits)
  show "(JSON_stringify uri = None) = (uri = Undefined)"
    by (rule JSON_stringify_undefined)
  show "uri = Str s \<longrightarrow> JSON_stringify uri = Some (quote s)"
    by simp
qed

text \<open>The scenario of the specification: the bodies of the four axios requests of the run.\<close>

theorem attach_payload_witness:
  \<open>request_bodies (main w_ok) =
     [None, None,
      Some ''{"RecordTitle":"Adobe Sign Integration Demo 3","RecordRecordType":"Document"}'',
      Some ''{"Uri":"/Records/42","RecordFilePath":"1b9d6bcd-bbfd-4b2d-9b5d-ab8dfbbd4bed.pdf"}'']
   \<and> upload_paths (network_calls (main w_ok)) = [''/1b9d6bcd-bbfd-4b2d-9b5d-ab8dfbbd4bed.pdf'']\<close>
proof -
  have bodies: "request_bodies tr = request_bodies (network_calls tr)" for tr
    by (induction tr rule: request_bodies.induct) (simp_all add: network_calls_def)
  have create: "data (createRecord_config w_ok gblCreateRecordJSON) =
      Some ''{\"RecordTitle\":\"Adobe Sign Integration Demo 3\",\"RecordRecordType\":\"Document\"}''"
    by (simp add: createRecord_config_def gblCreateRecordJSON_def quote_def escape_char_def)
  from attach_payload [OF w_ok_id w_ok_refresh example_requests(1) example_downloads(1)
      w_ok_create example_uploads(1), where s = "''/Records/42''"]
  show ?thesis
    by (simp add: bodies [of "main w_ok"] example_uuids(1) create
        refreshAdobeAccessToken_config_def example_download_request_def quote_def
        escape_char_def)
qed

text \<open>
  Claim C3 as it is written fails: when the record creation answers \<open>{"Results":[{}]}\<close>,
  the run uploads the file and reaches the attach stage, and the attach body has one field.
\<close>

theorem attach_payload_counterexample:
  \<open>create_outcome w_no_uri = Inr (Obj [(''Results'', Arr [Obj []])])
   \<and> upload_paths (main w_no_uri) = [''/1b9d6bcd-bbfd-4b2d-9b5d-ab8dfbbd4bed.pdf'']
   \<and> request_bodies (main w_no_uri) =
     [None, None,
      Some ''{"RecordTitle":"Adobe Sign Integration Demo 3","RecordRecordType":"Document"}'',
      Some ''{"RecordFilePath":"1b9d6bcd-bbfd-4b2d-9b5d-ab8dfbbd4bed.pdf"}'']\<close>
proof -
  have outcome: "create_outcome w_no_uri = Inr (Obj [(''Results'', Arr [Obj []])])"
    by (simp add: w_no_uri_def)
  have run: "main w_no_uri =
      attachDocument w_no_uri
        (Obj [(''Uri'', Undefined),
              (''RecordFilePath'', Str ''1b9d6bcd-bbfd-4b2d-9b5d-ab8dfbbd4bed.pdf'')])
        [ReadFileSync ''AdobeSignWebhookExample.json'',
         Axios (refreshAdobeAccessToken_config w_no_uri),
         status_line w_no_uri 2 green ''Adobe Sign Access Token updated.'',
         Axios example_download_request,
         status_line w_no_uri 4 green ''Document downloaded from Adobe Sign.'',
         Axios (createRecord_config w_no_uri gblCreateRecordJSON),
         status_line w_no_uri 6 green ''New Content Manager record successfully created.'',
         PutFileContents
           (createClient (contentManagerWedDAVUrl w_no_uri) (contentManagerUsername w_no_uri)
              (contentManagerPassword w_no_uri))
           ''/1b9d6bcd-bbfd-4b2d-9b5d-ab8dfbbd4bed.pdf'' ''%PDF'',
         status_line w_no_uri 8 green ''Document successfully transferred to WebDAV folder.'']"
    by (simp add: run_to_upload [OF example_ids(10) example_refreshes(10) example_requests(9)
          example_downloads(9) example_creates(7)]
        uploadDocument_def example_uploads(4) example_uuids(6) log_status_def Let_def
        eval_nat_numeral)
  have create: "data (createRecord_config w_no_uri gblCreateRecordJSON) =
      Some ''{\"RecordTitle\":\"Adobe Sign Integration Demo 3\",\"RecordRecordType\":\"Document\"}''"
    by (simp add: createRecord_config_def gblCreateRecordJSON_def quote_def escape_char_def)
  have attach: "data (attachDocument_config w_no_uri
        (Obj [(''Uri'', Undefined),
              (''RecordFilePath'', Str ''1b9d6bcd-bbfd-4b2d-9b5d-ab8dfbbd4bed.pdf'')])) =
      Some ''{\"RecordFilePath\":\"1b9d6bcd-bbfd-4b2d-9b5d-ab8dfbbd4bed.pdf\"}''"
    by (simp add: attachDocument_config_def quote_def escape_char_def)
  have paths: "upload_paths (main w_no_uri) = [''/1b9d6bcd-bbfd-4b2d-9b5d-ab8dfbbd4bed.pdf'']"
    by (simp add: run attachDocument_def attachDocument_catch_def example_uploads(8)
        log_status_def log_error_def Let_def)
  have bodies: "request_bodies (main w_no_uri) =
     [None, None,
      Some ''{\"RecordTitle\":\"Adobe Sign Integration Demo 3\",\"RecordRecordType\":\"Document\"}'',
      Some ''{\"RecordFilePath\":\"1b9d6bcd-bbfd-4b2d-9b5d-ab8dfbbd4bed.pdf\"}'']"
    by (simp add: run attachDocument_def attachDocument_catch_def example_uploads(8)
        log_status_def log_error_def Let_def create attach
        refreshAdobeAccessToken_config_def example_download_request_def)
  from outcome paths bodies show ?thesis
    by (intro conjI)
qed

section \<open>The upload filename\<close>




section \<open>No compensation\<close>

text \<open>
  Claim C5. In a run that has reached the record creation (the token and the agreement
  identifier have been converted to strings for the request of the download) and has read
  \<open>Results[0].Uri\<close>: when the record has been created and the WebDAV upload fails, the run is the
  events up to the upload, the red status line and the error, and nothing else; when the
  upload succeeds and the attach request fails, it is the events up to the attach request,
  the red status line and the error. Neither run holds a request that deletes the record or
  the file, nor a second attempt.
\<close>

theorem no_compensation:
  assumes "gblAgreementId w = Inr agreementId"
    and "refresh_stage w = Inr accessToken"
    and "downloadAgreementDocument_config w accessToken agreementId = Inr request"
    and "download_outcome w = Inr document"
    and "create_stage w = Inr uri"
  shows
   "(putFileContents_outcome w = Inl e \<longrightarrow>
       main w =
         [ReadFileSync ''AdobeSignWebhookExample.json'',
          Axios (refreshAdobeAccessToken_config w),
          status_line w 2 green ''Adobe Sign Access Token updated.'',
          Axios request,
          status_line w 4 green ''Document downloaded from Adobe Sign.'',
          Axios (createRecord_config w gblCreateRecordJSON),
          status_line w 6 green ''New Content Manager record successfully created.'',
          PutFileContents
            (createClient (contentManagerWedDAVUrl w) (contentManagerUsername w)
               (contentManagerPassword w))
            (''/'' @ uuidv4 w @ ''.pdf'') document,
          status_line w 8 red ''Error transferring file to WebDAV folder.'',
          ConsoleLog [LogError e]])
    \<and> (putFileContents_outcome w = Inr stored \<and> attach_outcome w = Inl e \<longrightarrow>
       main w =
         [ReadFileSync ''AdobeSignWebhookExample.json'',
          Axios (refreshAdobeAccessToken_config w),
          status_line w 2 green ''Adobe Sign Access Token updated.'',
          Axios request,
          status_line w 4 green ''Document downloaded from Adobe Sign.'',
          Axios (createRecord_config w gblCreateRecordJSON),
          status_line w 6 green ''New Content Manager record successfully created.'',
          PutFileContents
            (createClient (contentManagerWedDAVUrl w) (contentManagerUsername w)
               (contentManagerPassword w))
            (''/'' @ uuidv4 w @ ''.pdf'') document,
          status_line w 8 green ''Document successfully transferred to WebDAV folder.'',
          Axios (attachDocument_config w
                   (Obj [(''Uri'', uri), (''RecordFilePath'', Str (uuidv4 w @ ''.pdf''))])),
          status_line w 10 red ''Error attaching document to the Content Manager record.'',
          ConsoleLog [LogError e]])"
  by (simp add: run_to_upload [OF assms] uploadDocument_def uploadDocument_catch_def
      attachDocument_def attachDocument_catch_def log_status_def log_error_def Let_def
      eval_nat_numeral)

text \<open>A refused upload, and a connection lost during the attach request.\<close>

theorem no_compensation_witness:
  "main w_put_rejected =
     [ReadFileSync ''AdobeSignWebhookExample.json'',
      Axios (refreshAdobeAccessToken_config w_put_rejected),
      status_line w_put_rejected 2 green ''Adobe Sign Access Token updated.'',
      Axios example_download_request,
      status_line w_put_rejected 4 green ''Document downloaded from Adobe Sign.'',
      Axios (createRecord_config w_put_rejected gblCreateRecordJSON),
      status_line w_put_rejected 6 green ''New Content Manager record successfully created.'',
      PutFileContents
        \<lparr>remoteURL = Some ''http://cm/dav'', username = Some ''user'', password = Some ''pass''\<rparr>
        ''/1b9d6bcd-bbfd-4b2d-9b5d-ab8dfbbd4bed.pdf'' ''%PDF'',
      status_line w_put_rejected 8 red ''Error transferring file to WebDAV folder.'',
      ConsoleLog [LogError (WebDAVError ''403 Forbidden'')]]
   \<and> main w_attach_rejected =
     [ReadFileSync ''AdobeSignWebhookExample.json'',
      Axios (refreshAdobeAccessToken_config w_attach_rejected),
      status_line w_attach_rejected 2 green ''Adobe Sign Access Token updated.'',
      Axios example_download_request,
      status_line w_attach_rejected 4 green ''Document downloaded from Adobe Sign.'',
      Axios (createRecord_config w_attach_rejected gblCreateRecordJSON),
      status_line w_attach_rejected 6 green ''New Content Manager record successfully created.'',
      PutFileContents
        \<lparr>remoteURL = Some ''http://cm/dav'', username = Some ''user'', password = Some ''pass''\<rparr>
        ''/1b9d6bcd-bbfd-4b2d-9b5d-ab8dfbbd4bed.pdf'' ''%PDF'',
      status_line w_attach_rejected 8 green ''Document successfully transferred to WebDAV folder.'',
      Axios (attachDocument_config w_attach_rejected
               (Obj [(''Uri'', Str ''/Records/42''),
                     (''RecordFilePath'', Str ''1b9d6bcd-bbfd-4b2d-9b5d-ab8dfbbd4bed.pdf'')])),
      status_line w_attach_rejected 10 red ''Error attaching document to the Content Manager record.'',
      ConsoleLog [LogError (NetworkError ''ECONNRESET'')]]"
proof -
  have client: "createClient (contentManagerWedDAVUrl w_put_rejected)
      (contentManagerUsername w_put_rejected) (contentManagerPassword w_put_rejected) =
    \<lparr>remoteURL = Some ''http://cm/dav'', username = Some ''user'', password = Some ''pass''\<rparr>"
    "createClient (contentManagerWedDAVUrl w_attach_rejected)
      (contentManagerUsername w_attach_rejected) (contentManagerPassword w_attach_rejected) =
    \<lparr>remoteURL = Some ''http://cm/dav'', username = Some ''user'', password = Some ''pass''\<rparr>"
    by (simp_all add: createClient_def contentManagerWedDAVUrl_def contentManagerUsername_def
        contentManagerPassword_def world_defs)
  from
    no_compensation [OF example_ids(5) example_refreshes(5) example_requests(5)
      example_downloads(5) example_creates(3), where e = "WebDAVError ''403 Forbidden''"]
    no_compensation [OF example_ids(6) example_refreshes(6) example_requests(6)
      example_downloads(6) example_creates(4), where e = "NetworkError ''ECONNRESET''"
      and stored = "()"]
  show ?thesis
    by (simp add: example_uploads example_uuids client)
qed

section \<open>One endpoint for creation and attachment\<close>

text \<open>
  Claim C6. \<open>createRecord\<close> and \<open>attachDocument\<close> each begin with one axios request. Both
  requests are sent with the method POST to the URL of the Content Manager API followed by
  \<open>/Record\<close>, with the same two headers: the basic-auth \<open>Authorization\<close> and
  \<open>Content-Type: application/json\<close>. The two configs are equal but for the letter case of
  the method (\<open>post\<close> and \<open>POST\<close>, which axios sends alike) and for the data, the JSON text
  of the object passed: \<open>{RecordTitle, RecordRecordType}\<close> for the creation,
  \<open>{Uri, RecordFilePath}\<close> for the attachment.
\<close>

theorem create_and_attach_same_call_path:
  \<open>take (Suc (length tr)) (createRecord w creation document tr) =
       tr @ [Axios (createRecord_config w creation)]
   \<and> take (Suc (length tr')) (attachDocument w attachment tr') =
       tr' @ [Axios (attachDocument_config w attachment)]
   \<and> http_method (createRecord_config w creation) = ''POST''
   \<and> http_method (attachDocument_config w attachment) = ''POST''
   \<and> url (createRecord_config w creation) =
       env_string (contentManagerServiceAPIBaseUrl w) @ ''/Record''
   \<and> url (attachDocument_config w attachment) = url (createRecord_config w creation)
   \<and> headers (createRecord_config w creation) =
       [(''Authorization'', authorizationHeaderValue w), (''Content-Type'', ''application/json'')]
   \<and> headers (attachDocument_config w attachment) = headers (createRecord_config w creation)
   \<and> attachDocument_config w attachment =
       (createRecord_config w creation)\<lparr>method := ''POST'', data := JSON_stringify attachment\<rparr>
   \<and> data (createRecord_config w creation) = JSON_stringify creation
   \<and> JSON_stringify gblCreateRecordJSON =
       Some ''{"RecordTitle":"Adobe Sign Integration Demo 3","RecordRecordType":"Document"}''
   \<and> JSON_stringify (Obj [(''Uri'', Str ''/Records/42''), (''RecordFilePath'', Str ''a.pdf'')]) =
       Some ''{"Uri":"/Records/42","RecordFilePath":"a.pdf"}''\<close>
proof -
  obtain r1 where "createRecord w creation document tr =
      tr @ Axios (createRecord_config w creation) # r1"
    using createRecord_starts by blast
  moreover obtain r2 where "attachDocument w attachment tr' =
      tr' @ Axios (attachDocument_config w attachment) # r2"
    using attachDocument_starts by blast
  moreover have "http_method (createRecord_config w creation) = ''POST''"
    "http_method (attachDocument_config w attachment) = ''POST''"
    by (simp_all add: http_method_def createRecord_config_def attachDocument_config_def
        toUpperCase_char_def)
  ultimately show ?thesis
    by (simp add: createRecord_config_def attachDocument_config_def gblCreateRecordJSON_def
        quote_def escape_char_def)
qed

text \<open>The third and the fifth network call of the scenario of the specification.\<close>

theorem create_and_attach_same_call_path_witness:
  \<open>network_calls (main w_ok) ! 2 = Axios (createRecord_config w_ok gblCreateRecordJSON)
   \<and> network_calls (main w_ok) ! 4 =
       Axios (attachDocument_config w_ok
                (Obj [(''Uri'', Str ''/Records/42''),
                      (''RecordFilePath'', Str ''1b9d6bcd-bbfd-4b2d-9b5d-ab8dfbbd4bed.pdf'')]))
   \<and> http_method (createRecord_config w_ok gblCreateRecordJSON) = ''POST''
   \<and> http_method (attachDocument_config w_ok
                (Obj [(''Uri'', Str ''/Records/42''),
                      (''RecordFilePath'', Str ''1b9d6bcd-bbfd-4b2d-9b5d-ab8dfbbd4bed.pdf'')])) = ''POST''
   \<and> url (createRecord_config w_ok gblCreateRecordJSON) = ''http://cm/api/Record''
   \<and> url (attachDocument_config w_ok
                (Obj [(''Uri'', Str ''/Records/42''),
                      (''RecordFilePath'', Str ''1b9d6bcd-bbfd-4b2d-9b5d-ab8dfbbd4bed.pdf'')])) =
       ''http://cm/api/Record''
   \<and> headers (createRecord_config w_ok gblCreateRecordJSON) =
       [(''Authorization'', ''Basic dXNlcjpwYXNz''), (''Content-Type'', ''application/json'')]
   \<and> headers (attachDocument_config w_ok
                (Obj [(''Uri'', Str ''/Records/42''),
                      (''RecordFilePath'', Str ''1b9d6bcd-bbfd-4b2d-9b5d-ab8dfbbd4bed.pdf'')])) =
       [(''Authorization'', ''Basic dXNlcjpwYXNz''), (''Content-Type'', ''application/json'')]
   \<and> data (createRecord_config w_ok gblCreateRecordJSON) =
       Some ''{"RecordTitle":"Adobe Sign Integration Demo 3","RecordRecordType":"Document"}''\<close>
proof -
  have auth: "authorizationHeaderValue w_ok = ''Basic dXNlcjpwYXNz''"
    by (simp add: authorizationHeaderValue_def contentManagerUsername_def
        contentManagerPassword_def w_ok_def base64_def b64_char_def)
  have base: "contentManagerServiceAPIBaseUrl w_ok = Some ''http://cm/api''"
    by (simp add: contentManagerServiceAPIBaseUrl_def w_ok_def)
  have run: "network_calls (main w_ok) ! 2 = Axios (createRecord_config w_ok gblCreateRecordJSON)
    \<and> network_calls (main w_ok) ! 4 = Axios (attachDocument_config w_ok
        (Obj [(''Uri'', Str ''/Records/42''),
              (''RecordFilePath'', Str ''1b9d6bcd-bbfd-4b2d-9b5d-ab8dfbbd4bed.pdf'')]))"
    by (simp add: run_to_upload [OF w_ok_id w_ok_refresh example_requests(1)
          example_downloads(1) w_ok_create]
        uploadDocument_def attachDocument_def log_status_def Let_def example_uploads
        network_calls_def example_uuids(1))
  from create_and_attach_same_call_path
    [where w = w_ok and creation = gblCreateRecordJSON
       and attachment = "Obj [(''Uri'', Str ''/Records/42''),
              (''RecordFilePath'', Str ''1b9d6bcd-bbfd-4b2d-9b5d-ab8dfbbd4bed.pdf'')]"
       and tr = "[]" and tr' = "[]" and document = "[]"]
  have "http_method (createRecord_config w_ok gblCreateRecordJSON) = ''POST''
   \<and> http_method (attachDocument_config w_ok
                (Obj [(''Uri'', Str ''/Records/42''),
                      (''RecordFilePath'', Str ''1b9d6bcd-bbfd-4b2d-9b5d-ab8dfbbd4bed.pdf'')])) = ''POST''
   \<and> url (createRecord_config w_ok gblCreateRecordJSON) =
       env_string (contentManagerServiceAPIBaseUrl w_ok) @ ''/Record''
   \<and> url (attachDocument_config w_ok
                (Obj [(''Uri'', Str ''/Records/42''),
                      (''RecordFilePath'', Str ''1b9d6bcd-bbfd-4b2d-9b5d-ab8dfbbd4bed.pdf'')])) =
       url (createRecord_config w_ok gblCreateRecordJSON)
   \<and> headers (createRecord_config w_ok gblCreateRecordJSON) =
       [(''Authorization'', authorizationHeaderValue w_ok), (''Content-Type'', ''application/json'')]
   \<and> headers (attachDocument_config w_ok
                (Obj [(''Uri'', Str ''/Records/42''),
                      (''RecordFilePath'', Str ''1b9d6bcd-bbfd-4b2d-9b5d-ab8dfbbd4bed.pdf'')])) =
       headers (createRecord_config w_ok gblCreateRecordJSON)
   \<and> data (createRecord_config w_ok gblCreateRecordJSON) = JSON_stringify gblCreateRecordJSON
   \<and> JSON_stringify gblCreateRecordJSON =
       Some ''{\"RecordTitle\":\"Adobe Sign Integration Demo 3\",\"RecordRecordType\":\"Document\"}''"
    by (elim conjE) (intro conjI; assumption)
  with run show ?thesis
    by (simp add: auth base)
qed

section \<open>The colour of the download failure\<close>



section \<open>The refresh request\<close>

text \<open>
  Claim C8, as amended. Every run that has the agreement identifier issues, as its first
  network call, a POST to the Adobe Sign base URL followed by \<open>/oauth/refresh\<close> with the
  query parameters \<open>refresh_token\<close>, \<open>client_id\<close>, \<open>client_secret\<close> and
  \<open>grant_type=refresh_token\<close> and the header
  \<open>Content-Type: application/x-www-form-urlencoded\<close>. When the request succeeds with a
  response body that is neither \<open>null\<close> nor \<open>undefined\<close>, the read of \<open>access_token\<close>
  does not throw, and its value (\<open>undefined\<close> when the field is absent) goes to the
  download stage. When that value and the agreement identifier convert to strings (a
  string is its own conversion), the request of the download is the next network call,
  with the header \<open>Authorization: Bearer\<close> and the converted value. When one of the two
  conversions throws, or when the body is \<open>null\<close> or \<open>undefined\<close> and the read throws,
  the \<open>catch\<close> handler of the refresh stage logs the error, and no download is requested.
\<close>

theorem refresh_request_and_token:
  assumes "gblAgreementId w = Inr agreementId"
  shows
   "take 2 (main w) =
      [ReadFileSync ''AdobeSignWebhookExample.json'',
       Axios \<lparr>method = ''POST'',
              url = env_string (adobeSignBaseUrl w) @ ''/oauth/refresh?refresh_token=''
                      @ env_string (adobeSignRefreshToken w) @ ''&client_id=''
                      @ env_string (adobeSignClientId w) @ ''&client_secret=''
                      @ env_string (adobeSignClientSecret w) @ ''&grant_type=refresh_token'',
              headers = [(''Content-Type'', ''application/x-www-form-urlencoded'')],
              responseType = None,
              data = None\<rparr>]
    \<and> (refresh_outcome w = Inr body \<and> body \<noteq> Null \<and> body \<noteq> Undefined \<longrightarrow>
         \<not> isl (get_prop body ''access_token''))
    \<and> (refresh_outcome w = Inr body \<and> get_prop body ''access_token'' = Inr accessToken
        \<and> to_string agreementId = Inr agreementId_text
        \<and> to_string accessToken = Inr accessToken_text \<longrightarrow>
         take 4 (main w) =
           [ReadFileSync ''AdobeSignWebhookExample.json'',
            Axios (refreshAdobeAccessToken_config w),
            status_line w 2 green ''Adobe Sign Access Token updated.'',
            Axios \<lparr>method = ''get'',
                   url = env_string (adobeSignBaseUrl w) @ ''/api/rest/v6/agreements/''
                           @ agreementId_text
                           @ ''/combinedDocument?attachSupportingDocuments=false'',
                   headers = [(''Authorization'', ''Bearer '' @ accessToken_text)],
                   responseType = Some ''arraybuffer'',
                   data = None\<rparr>])
    \<and> to_string (Str token) = Inr token
    \<and> (refresh_outcome w = Inr body \<and> get_prop body ''access_token'' = Inr accessToken
        \<and> (to_string agreementId = Inl e
            \<or> \<not> isl (to_string agreementId) \<and> to_string accessToken = Inl e) \<longrightarrow>
         main w =
           [ReadFileSync ''AdobeSignWebhookExample.json'',
            Axios (refreshAdobeAccessToken_config w),
            status_line w 2 green ''Adobe Sign Access Token updated.'',
            status_line w 3 red ''Error updating Adobe Sign Access Token.'',
            ConsoleLog [LogError e]])
    \<and> (refresh_outcome w = Inr body \<and> (body = Null \<or> body = Undefined) \<longrightarrow>
         main w =
           [ReadFileSync ''AdobeSignWebhookExample.json'',
            Axios (refreshAdobeAccessToken_config w),
            status_line w 2 green ''Adobe Sign Access Token updated.'',
            status_line w 3 red ''Error updating Adobe Sign Access Token.'',
            ConsoleLog [LogError (TypeError ''access_token'')]])"
proof (intro conjI impI)
  obtain rest where "refreshAdobeAccessToken w agreementId
      [ReadFileSync ''AdobeSignWebhookExample.json''] =
    [ReadFileSync ''AdobeSignWebhookExample.json''] @ Axios (refreshAdobeAccessToken_config w) # rest"
    using refreshAdobeAccessToken_starts by blast
  then show "take 2 (main w) =
      [ReadFileSync ''AdobeSignWebhookExample.json'',
       Axios \<lparr>method = ''POST'',
              url = env_string (adobeSignBaseUrl w) @ ''/oauth/refresh?refresh_token=''
                      @ env_string (adobeSignRefreshToken w) @ ''&client_id=''
                      @ env_string (adobeSignClientId w) @ ''&client_secret=''
                      @ env_string (adobeSignClientSecret w) @ ''&grant_type=refresh_token'',
              headers = [(''Content-Type'', ''application/x-www-form-urlencoded'')],
              responseType = None,
              data = None\<rparr>]"
    using assms by (simp add: main_def refreshAdobeAccessToken_config_def eval_nat_numeral)
next
  assume "refresh_outcome w = Inr body \<and> body \<noteq> Null \<and> body \<noteq> Undefined"
  then show "\<not> isl (get_prop body ''access_token'')"
    by (cases "get_prop body ''access_token''") (simp_all add: get_prop_throws)
next
  let ?request = "\<lparr>method = ''get'',
                   url = env_string (adobeSignBaseUrl w) @ ''/api/rest/v6/agreements/''
                           @ agreementId_text
                           @ ''/combinedDocument?attachSupportingDocuments=false'',
                   headers = [(''Authorization'', ''Bearer '' @ accessToken_text)],
                   responseType = Some ''arraybuffer'',
                   data = None\<rparr>"
  assume a: "refresh_outcome w = Inr body \<and> get_prop body ''access_token'' = Inr accessToken
      \<and> to_string agreementId = Inr agreementId_text
      \<and> to_string accessToken = Inr accessToken_text"
  then have request: "downloadAgreementDocument_config w accessToken agreementId = Inr ?request"
    by (simp add: downloadAgreementDocument_config_def)
  obtain rest where "downloadAgreementDocument w accessToken agreementId
      [ReadFileSync ''AdobeSignWebhookExample.json'',
       Axios (refreshAdobeAccessToken_config w),
       status_line w 2 green ''Adobe Sign Access Token updated.''] =
    Inr ([ReadFileSync ''AdobeSignWebhookExample.json'',
          Axios (refreshAdobeAccessToken_config w),
          status_line w 2 green ''Adobe Sign Access Token updated.'']
         @ Axios ?request # rest)"
    using downloadAgreementDocument_starts [OF request] by blast
  with a have "main w =
     [ReadFileSync ''AdobeSignWebhookExample.json'',
        Axios (refreshAdobeAccessToken_config w),
        status_line w 2 green ''Adobe Sign Access Token updated.'']
     @ Axios ?request # rest"
    using assms
    by (simp add: main_def refreshAdobeAccessToken_def log_status_def Let_def eval_nat_numeral)
  then show "take 4 (main w) =
           [ReadFileSync ''AdobeSignWebhookExample.json'',
            Axios (refreshAdobeAccessToken_config w),
            status_line w 2 green ''Adobe Sign Access Token updated.'',
            Axios ?request]"
    by (simp add: eval_nat_numeral)
next
  show "to_string (Str token) = Inr token"
    by simp
next
  assume a: "refresh_outcome w = Inr body \<and> get_prop body ''access_token'' = Inr accessToken
      \<and> (to_string agreementId = Inl e
          \<or> \<not> isl (to_string agreementId) \<and> to_string accessToken = Inl e)"
  then have "downloadAgreementDocument_config w accessToken agreementId = Inl e"
    by (auto simp: downloadAgreementDocument_config_def split: sum.splits)
  with a show "main w =
           [ReadFileSync ''AdobeSignWebhookExample.json'',
            Axios (refreshAdobeAccessToken_config w),
            status_line w 2 green ''Adobe Sign Access Token updated.'',
            status_line w 3 red ''Error updating Adobe Sign Access Token.'',
            ConsoleLog [LogError e]]"
    using assms
    by (simp add: main_def refreshAdobeAccessToken_def downloadAgreementDocument_def
        refreshAdobeAccessToken_catch_def log_status_def log_error_def Let_def
        eval_nat_numeral)
next
  assume "refresh_outcome w = Inr body \<and> (body = Null \<or> body = Undefined)"
  then show "main w =
           [ReadFileSync ''AdobeSignWebhookExample.json'',
            Axios (refreshAdobeAccessToken_config w),
            status_line w 2 green ''Adobe Sign Access Token updated.'',
            status_line w 3 red ''Error updating Adobe Sign Access Token.'',
            ConsoleLog [LogError (TypeError ''access_token'')]]"
    using assms
    by (auto simp: main_def refreshAdobeAccessToken_def refreshAdobeAccessToken_catch_def
        log_status_def log_error_def Let_def eval_nat_numeral)
qed

text \<open>
  The scenario of the specification, a refresh answered with \<open>null\<close>, and a refresh
  answered with \<open>{"access_token":{"toString":1}}\<close>.
\<close>

theorem refresh_request_and_token_witness:
  "take 2 (main w_ok) =
      [ReadFileSync ''AdobeSignWebhookExample.json'',
       Axios \<lparr>method = ''POST'',
              url = ''https://sign/oauth/refresh?refresh_token=rt&client_id=cid&client_secret=sec&grant_type=refresh_token'',
              headers = [(''Content-Type'', ''application/x-www-form-urlencoded'')],
              responseType = None,
              data = None\<rparr>]
   \<and> take 4 (main w_ok) =
      [ReadFileSync ''AdobeSignWebhookExample.json'',
       Axios (refreshAdobeAccessToken_config w_ok),
       status_line w_ok 2 green ''Adobe Sign Access Token updated.'',
       Axios \<lparr>method = ''get'',
              url = ''https://sign/api/rest/v6/agreements/AGR-123/combinedDocument?attachSupportingDocuments=false'',
              headers = [(''Authorization'', ''Bearer tok-abc'')],
              responseType = Some ''arraybuffer'',
              data = None\<rparr>]
   \<and> main w_null_body =
      [ReadFileSync ''AdobeSignWebhookExample.json'',
       Axios (refreshAdobeAccessToken_config w_null_body),
       status_line w_null_body 2 green ''Adobe Sign Access Token updated.'',
       status_line w_null_body 3 red ''Error updating Adobe Sign Access Token.'',
       ConsoleLog [LogError (TypeError ''access_token'')]]
   \<and> main w_token_object =
      [ReadFileSync ''AdobeSignWebhookExample.json'',
       Axios (refreshAdobeAccessToken_config w_token_object),
       status_line w_token_object 2 green ''Adobe Sign Access Token updated.'',
       status_line w_token_object 3 red ''Error updating Adobe Sign Access Token.'',
       ConsoleLog [LogError NotPrimitive]]"
proof -
  have env: "env_string (adobeSignBaseUrl w_ok) = ''https://sign''"
    "env_string (adobeSignRefreshToken w_ok) = ''rt''"
    "env_string (adobeSignClientId w_ok) = ''cid''"
    "env_string (adobeSignClientSecret w_ok) = ''sec''"
    by (simp_all add: adobeSignBaseUrl_def adobeSignRefreshToken_def adobeSignClientId_def
        adobeSignClientSecret_def w_ok_def)
  have ok: "refresh_outcome w_ok = Inr (Obj [(''access_token'', Str ''tok-abc'')])"
    "get_prop (Obj [(''access_token'', Str ''tok-abc'')]) ''access_token'' = Inr (Str ''tok-abc'')"
    by (simp_all add: w_ok_def)
  have null: "refresh_outcome w_null_body = Inr Null"
    by (simp add: world_defs)
  have object:
    "refresh_outcome w_token_object = Inr (Obj [(''access_token'', Obj [(''toString'', Num ''1'')])])"
    "get_prop (Obj [(''access_token'', Obj [(''toString'', Num ''1'')])]) ''access_token'' =
       Inr (Obj [(''toString'', Num ''1'')])"
    "to_string (Obj [(''toString'', Num ''1'')]) = Inl NotPrimitive"
    by (simp_all add: world_defs)
  from refresh_request_and_token [OF w_ok_id,
      where body = "Obj [(''access_token'', Str ''tok-abc'')]" and accessToken = "Str ''tok-abc''"
        and agreementId_text = "''AGR-123''" and accessToken_text = "''tok-abc''"]
  have first: "take 2 (main w_ok) =
      [ReadFileSync ''AdobeSignWebhookExample.json'',
       Axios \<lparr>method = ''POST'',
              url = ''https://sign/oauth/refresh?refresh_token=rt&client_id=cid&client_secret=sec&grant_type=refresh_token'',
              headers = [(''Content-Type'', ''application/x-www-form-urlencoded'')],
              responseType = None,
              data = None\<rparr>]"
    and second: "take 4 (main w_ok) =
      [ReadFileSync ''AdobeSignWebhookExample.json'',
       Axios (refreshAdobeAccessToken_config w_ok),
       status_line w_ok 2 green ''Adobe Sign Access Token updated.'',
       Axios \<lparr>method = ''get'',
              url = ''https://sign/api/rest/v6/agreements/AGR-123/combinedDocument?attachSupportingDocuments=false'',
              headers = [(''Authorization'', ''Bearer tok-abc'')],
              responseType = Some ''arraybuffer'',
              data = None\<rparr>]"
    by (simp_all add: env ok)
  from refresh_request_and_token [OF example_ids(7), where body = Null]
  have third: "main w_null_body =
      [ReadFileSync ''AdobeSignWebhookExample.json'',
       Axios (refreshAdobeAccessToken_config w_null_body),
       status_line w_null_body 2 green ''Adobe Sign Access Token updated.'',
       status_line w_null_body 3 red ''Error updating Adobe Sign Access Token.'',
       ConsoleLog [LogError (TypeError ''access_token'')]]"
    by (simp add: null)
  from refresh_request_and_token [OF example_ids(14),
      where body = "Obj [(''access_token'', Obj [(''toString'', Num ''1'')])]"
        and accessToken = "Obj [(''toString'', Num ''1'')]" and e = NotPrimitive]
  have fourth: "main w_token_object =
      [ReadFileSync ''AdobeSignWebhookExample.json'',
       Axios (refreshAdobeAccessToken_config w_token_object),
       status_line w_token_object 2 green ''Adobe Sign Access Token updated.'',
       status_line w_token_object 3 red ''Error updating Adobe Sign Access Token.'',
       ConsoleLog [LogError NotPrimitive]]"
    by (simp add: object)
  from first second third fourth show ?thesis
    by (intro conjI)
qed

text \<open>
  Claim C8 as it is written fails: a refresh that succeeds with the body \<open>null\<close> passes
  nothing to the download stage, and the refresh request is the only network call.
\<close>

theorem refresh_request_and_token_counterexample:
  "gblAgreementId w_null_body = Inr (Str ''AGR-123'')
   \<and> refresh_outcome w_null_body = Inr Null
   \<and> network_calls (main w_null_body) = [Axios (refreshAdobeAccessToken_config w_null_body)]"
  by (simp add: run_defs world_defs)

section \<open>A record creation without a result\<close>

text \<open>
  Claim C9, as amended. In a run that has requested the download (the token and the
  agreement identifier have been converted to strings) and received the document: when
  the record creation succeeds and the read of
  \<open>response.data.Results[0].Uri\<close> throws, the run logs the success line, then the red
  line \<open>Error creating Content Manager record.\<close> and the error, and neither upload nor
  attach request is made. The read throws exactly when \<open>response.data\<close>, its \<open>Results\<close>
  or its \<open>Results[0]\<close> is \<open>undefined\<close> or \<open>null\<close>: so it does when \<open>Results\<close> is
  missing, is the empty array, or is \<open>null\<close>, a boolean, a number or the empty string.
  It does not throw when \<open>Results[0]\<close> exists and has no \<open>Uri\<close>.
\<close>

theorem results_read_throws:
  assumes "gblAgreementId w = Inr agreementId"
    and "refresh_stage w = Inr accessToken"
    and "downloadAgreementDocument_config w accessToken agreementId = Inr request"
    and "download_outcome w = Inr document"
    and "create_outcome w = Inr body"
  shows
   "(then_read (then_read (get_prop body ''Results'') ''0'') ''Uri'' = Inl e \<longrightarrow>
       main w =
         [ReadFileSync ''AdobeSignWebhookExample.json'',
          Axios (refreshAdobeAccessToken_config w),
          status_line w 2 green ''Adobe Sign Access Token updated.'',
          Axios request,
          status_line w 4 green ''Document downloaded from Adobe Sign.'',
          Axios (createRecord_config w gblCreateRecordJSON),
          status_line w 6 green ''New Content Manager record successfully created.'',
          status_line w 7 red ''Error creating Content Manager record.'',
          ConsoleLog [LogError e]]
       \<and> network_calls (main w) =
         [Axios (refreshAdobeAccessToken_config w),
          Axios request,
          Axios (createRecord_config w gblCreateRecordJSON)])
    \<and> (then_read (then_read (get_prop body ''Results'') ''0'') ''Uri'' = Inl e) =
       ((body = Undefined \<or> body = Null) \<and> e = TypeError ''Results''
        \<or> (get_prop body ''Results'' = Inr Undefined \<or> get_prop body ''Results'' = Inr Null)
           \<and> e = TypeError ''0''
        \<or> (then_read (get_prop body ''Results'') ''0'' = Inr Undefined
            \<or> then_read (get_prop body ''Results'') ''0'' = Inr Null)
           \<and> e = TypeError ''Uri'')
    \<and> (body = Obj props \<and> map_of props ''Results'' = None \<longrightarrow>
         then_read (then_read (get_prop body ''Results'') ''0'') ''Uri'' = Inl (TypeError ''0''))
    \<and> (body = Obj props \<and> map_of props ''Results'' = Some (Arr []) \<longrightarrow>
         then_read (then_read (get_prop body ''Results'') ''0'') ''Uri'' = Inl (TypeError ''Uri''))
    \<and> (body = Obj props \<and> map_of props ''Results'' = Some Null \<longrightarrow>
         then_read (then_read (get_prop body ''Results'') ''0'') ''Uri'' = Inl (TypeError ''0''))
    \<and> (body = Obj props
        \<and> (map_of props ''Results'' = Some (Bool b) \<or> map_of props ''Results'' = Some (Num n)
            \<or> map_of props ''Results'' = Some (Str [])) \<longrightarrow>
         then_read (then_read (get_prop body ''Results'') ''0'') ''Uri'' = Inl (TypeError ''Uri''))"
proof (intro conjI impI)
  assume a: "then_read (then_read (get_prop body ''Results'') ''0'') ''Uri'' = Inl e"
  then show "main w =
         [ReadFileSync ''AdobeSignWebhookExample.json'',
          Axios (refreshAdobeAccessToken_config w),
          status_line w 2 green ''Adobe Sign Access Token updated.'',
          Axios request,
          status_line w 4 green ''Document downloaded from Adobe Sign.'',
          Axios (createRecord_config w gblCreateRecordJSON),
          status_line w 6 green ''New Content Manager record successfully created.'',
          status_line w 7 red ''Error creating Content Manager record.'',
          ConsoleLog [LogError e]]"
    using assms(5)
    by (simp add: run_to_create [OF assms(1-4)] createRecord_def createRecord_catch_def
        log_status_def log_error_def Let_def eval_nat_numeral)
  from a show "network_calls (main w) =
         [Axios (refreshAdobeAccessToken_config w),
          Axios request,
          Axios (createRecord_config w gblCreateRecordJSON)]"
    using assms(5)
    by (simp add: run_to_create [OF assms(1-4)] createRecord_def createRecord_catch_def
        log_status_def log_error_def Let_def network_calls_def)
next
  show "(then_read (then_read (get_prop body ''Results'') ''0'') ''Uri'' = Inl e) =
       ((body = Undefined \<or> body = Null) \<and> e = TypeError ''Results''
        \<or> (get_prop body ''Results'' = Inr Undefined \<or> get_prop body ''Results'' = Inr Null)
           \<and> e = TypeError ''0''
        \<or> (then_read (get_prop body ''Results'') ''0'' = Inr Undefined
            \<or> then_read (get_prop body ''Results'') ''0'' = Inr Null)
           \<and> e = TypeError ''Uri'')"
    by (auto simp: then_read_throws get_prop_throws)
qed (auto simp: then_read_def indexed_def)

text \<open>
  Record creations answered with \<open>{}\<close>, \<open>{"Results":[]}\<close>, \<open>{"Results":null}\<close> and
  \<open>{"Results":5}\<close>.
\<close>

theorem results_read_throws_witness:
  "main w_no_results =
     [ReadFileSync ''AdobeSignWebhookExample.json'',
      Axios (refreshAdobeAccessToken_config w_no_results),
      status_line w_no_results 2 green ''Adobe Sign Access Token updated.'',
      Axios example_download_request,
      status_line w_no_results 4 green ''Document downloaded from Adobe Sign.'',
      Axios (createRecord_config w_no_results gblCreateRecordJSON),
      status_line w_no_results 6 green ''New Content Manager record successfully created.'',
      status_line w_no_results 7 red ''Error creating Content Manager record.'',
      ConsoleLog [LogError (TypeError ''0'')]]
   \<and> network_calls (main w_empty_results) =
     [Axios (refreshAdobeAccessToken_config w_empty_results),
      Axios example_download_request,
      Axios (createRecord_config w_empty_results gblCreateRecordJSON)]
   \<and> last (main w_empty_results) = ConsoleLog [LogError (TypeError ''Uri'')]
   \<and> network_calls (main w_results_null) =
     [Axios (refreshAdobeAccessToken_config w_results_null),
      Axios example_download_request,
      Axios (createRecord_config w_results_null gblCreateRecordJSON)]
   \<and> last (main w_results_null) = ConsoleLog [LogError (TypeError ''0'')]
   \<and> network_calls (main w_results_number) =
     [Axios (refreshAdobeAccessToken_config w_results_number),
      Axios example_download_request,
      Axios (createRecord_config w_results_number gblCreateRecordJSON)]
   \<and> last (main w_results_number) = ConsoleLog [LogError (TypeError ''Uri'')]"
proof -
  have a: "create_outcome w_no_results = Inr (Obj [])"
    "create_outcome w_empty_results = Inr (Obj [(''Results'', Arr [])])"
    "create_outcome w_results_null = Inr (Obj [(''Results'', Null)])"
    "create_outcome w_results_number = Inr (Obj [(''Results'', Num ''5'')])"
    by (simp_all add: world_defs)
  from results_read_throws [OF example_ids(8) example_refreshes(8) example_requests(7)
      example_downloads(7) a(1), where props = "[]" and e = "TypeError ''0''"]
    results_read_throws [OF example_ids(9) example_refreshes(9) example_requests(8)
      example_downloads(8) a(2),
      where props = "[(''Results'', Arr [])]" and e = "TypeError ''Uri''"]
    results_read_throws [OF example_ids(12) example_refreshes(12) example_requests(11)
      example_downloads(11) a(3),
      where props = "[(''Results'', Null)]" and e = "TypeError ''0''"]
    results_read_throws [OF example_ids(13) example_refreshes(13) example_requests(12)
      example_downloads(12) a(4),
      where props = "[(''Results'', Num ''5'')]" and e = "TypeError ''Uri''" and n = "''5''"]
  show ?thesis
    by (simp add: then_read_def indexed_def network_calls_def)
qed

text \<open>
  Claim C9 as it is written fails: when the record creation answers \<open>{"Results":"abc"}\<close>,
  \<open>Results\<close> is not an array and the body has no \<open>Results[0].Uri\<close>, yet nothing is thrown:
  \<open>Results[0]\<close> is the string \<open>a\<close>, its \<open>Uri\<close> is \<open>undefined\<close>, and the upload and
  the attach request are made.
\<close>

theorem results_read_throws_counterexample:
  "create_outcome w_results_string = Inr (Obj [(''Results'', Str ''abc'')])
   \<and> get_prop (Str ''abc'') ''0'' = Inr (Str ''a'')
   \<and> get_prop (Str ''a'') ''Uri'' = Inr Undefined
   \<and> network_calls (main w_results_string) =
     [Axios (refreshAdobeAccessToken_config w_results_string),
      Axios example_download_request,
      Axios (createRecord_config w_results_string gblCreateRecordJSON),
      PutFileContents
        \<lparr>remoteURL = Some ''http://cm/dav'', username = Some ''user'', password = Some ''pass''\<rparr>
        ''/1b9d6bcd-bbfd-4b2d-9b5d-ab8dfbbd4bed.pdf'' ''%PDF'',
      Axios (attachDocument_config w_results_string
               (Obj [(''Uri'', Undefined),
                     (''RecordFilePath'', Str ''1b9d6bcd-bbfd-4b2d-9b5d-ab8dfbbd4bed.pdf'')]))]"
proof -
  have outcome: "create_outcome w_results_string = Inr (Obj [(''Results'', Str ''abc'')])"
    by (simp add: w_results_string_def)
  have reads: "get_prop (Str ''abc'') ''0'' = Inr (Str ''a'')"
    "get_prop (Str ''a'') ''Uri'' = Inr Undefined"
    by (simp_all add: indexed_def show_nat.simps upt_conv_Cons)
  have client: "createClient (contentManagerWedDAVUrl w_results_string)
      (contentManagerUsername w_results_string) (contentManagerPassword w_results_string) =
    \<lparr>remoteURL = Some ''http://cm/dav'', username = Some ''user'', password = Some ''pass''\<rparr>"
    by (simp add: createClient_def contentManagerWedDAVUrl_def contentManagerUsername_def
        contentManagerPassword_def world_defs)
  have calls: "network_calls (main w_results_string) =
     [Axios (refreshAdobeAccessToken_config w_results_string),
      Axios example_download_request,
      Axios (createRecord_config w_results_string gblCreateRecordJSON),
      PutFileContents
        \<lparr>remoteURL = Some ''http://cm/dav'', username = Some ''user'', password = Some ''pass''\<rparr>
        ''/1b9d6bcd-bbfd-4b2d-9b5d-ab8dfbbd4bed.pdf'' ''%PDF'',
      Axios (attachDocument_config w_results_string
               (Obj [(''Uri'', Undefined),
                     (''RecordFilePath'', Str ''1b9d6bcd-bbfd-4b2d-9b5d-ab8dfbbd4bed.pdf'')]))]"
    by (simp add: run_to_upload [OF example_ids(11) example_refreshes(11) example_requests(10)
          example_downloads(10) example_creates(8)]
        uploadDocument_def attachDocument_def example_uploads(5) example_uploads(9)
        example_uuids(7) client log_status_def Let_def network_calls_def)
  from outcome reads calls show ?thesis
    by (intro conjI)
qed

section \<open>The fixture comes first\<close>

text \<open>
  Claim C10. The first event of every run is the synchronous read of
  \<open>AdobeSignWebhookExample.json\<close>. When the file cannot be read, when its contents are not
  JSON, and when the parsed value has no \<open>agreement.id\<close> to read, the exception is not
  caught and the run ends there, with no network call. Otherwise the run goes on with
  \<open>refreshAdobeAccessToken\<close>, called with the agreement identifier that was read, and the
  refresh request is the second event.
\<close>

theorem fixture_before_network:
  "take 1 (main w) = [ReadFileSync ''AdobeSignWebhookExample.json'']
   \<and> (readFileSync w ''AdobeSignWebhookExample.json'' = Inl e \<longrightarrow>
        main w = [ReadFileSync ''AdobeSignWebhookExample.json'', Uncaught e])
   \<and> (readFileSync w ''AdobeSignWebhookExample.json'' = Inr fileContents
        \<and> JSON_parse w fileContents = Inl e \<longrightarrow>
        main w = [ReadFileSync ''AdobeSignWebhookExample.json'', Uncaught e])
   \<and> (readFileSync w ''AdobeSignWebhookExample.json'' = Inr fileContents
        \<and> JSON_parse w fileContents = Inr webhook
        \<and> then_read (get_prop webhook ''agreement'') ''id'' = Inl e \<longrightarrow>
        main w = [ReadFileSync ''AdobeSignWebhookExample.json'', Uncaught e])
   \<and> (readFileSync w ''AdobeSignWebhookExample.json'' = Inr fileContents
        \<and> JSON_parse w fileContents = Inr webhook
        \<and> then_read (get_prop webhook ''agreement'') ''id'' = Inr agreementId \<longrightarrow>
        main w = refreshAdobeAccessToken w agreementId
                   [ReadFileSync ''AdobeSignWebhookExample.json'']
        \<and> take 2 (main w) =
            [ReadFileSync ''AdobeSignWebhookExample.json'',
             Axios (refreshAdobeAccessToken_config w)])"
proof -
  have first: "take 1 (main w) = [ReadFileSync ''AdobeSignWebhookExample.json'']"
  proof (cases "gblAgreementId w")
    case (Inl e)
    then show ?thesis by (simp add: main_def)
  next
    case (Inr agreementId)
    obtain rest where "refreshAdobeAccessToken w agreementId
        [ReadFileSync ''AdobeSignWebhookExample.json''] =
      [ReadFileSync ''AdobeSignWebhookExample.json'']
        @ Axios (refreshAdobeAccessToken_config w) # rest"
      using refreshAdobeAccessToken_starts by blast
    with Inr show ?thesis by (simp add: main_def)
  qed
  have started: "gblAgreementId w = Inr agreementId \<Longrightarrow>
      take 2 (main w) =
        [ReadFileSync ''AdobeSignWebhookExample.json'', Axios (refreshAdobeAccessToken_config w)]"
    for agreementId
  proof -
    assume a: "gblAgreementId w = Inr agreementId"
    obtain rest where "refreshAdobeAccessToken w agreementId
        [ReadFileSync ''AdobeSignWebhookExample.json''] =
      [ReadFileSync ''AdobeSignWebhookExample.json'']
        @ Axios (refreshAdobeAccessToken_config w) # rest"
      using refreshAdobeAccessToken_starts by blast
    with a show ?thesis by (simp add: main_def eval_nat_numeral)
  qed
  show ?thesis
    using first started [of agreementId]
    by (auto simp: main_def gblAgreementId_def)
qed

text \<open>
  A missing fixture, a fixture that is not JSON, the fixture \<open>{}\<close>, and the fixture of the
  specification.
\<close>

theorem fixture_before_network_witness:
  "main w_no_file = [ReadFileSync ''AdobeSignWebhookExample.json'', Uncaught (FsError ''ENOENT'')]
   \<and> main w_bad_json =
       [ReadFileSync ''AdobeSignWebhookExample.json'', Uncaught (SyntaxError ''Unexpected token'')]
   \<and> main w_no_agreement =
       [ReadFileSync ''AdobeSignWebhookExample.json'', Uncaught (TypeError ''id'')]
   \<and> take 2 (main w_ok) =
       [ReadFileSync ''AdobeSignWebhookExample.json'', Axios (refreshAdobeAccessToken_config w_ok)]"
proof -
  have d: "readFileSync w_no_agreement ''AdobeSignWebhookExample.json'' = Inr ''{}''"
    "JSON_parse w_no_agreement ''{}'' = Inr (Obj [])"
    by (simp_all add: world_defs)
  have a: "readFileSync w_no_file ''AdobeSignWebhookExample.json'' = Inl (FsError ''ENOENT'')"
    by (simp add: world_defs)
  have b: "readFileSync w_bad_json ''AdobeSignWebhookExample.json'' = Inr ''not json''"
    "JSON_parse w_bad_json ''not json'' = Inl (SyntaxError ''Unexpected token'')"
    by (simp_all add: world_defs fixture_text_def)
  have c: "readFileSync w_ok ''AdobeSignWebhookExample.json'' = Inr fixture_text"
    "JSON_parse w_ok fixture_text = Inr (Obj [(''agreement'', Obj [(''id'', Str ''AGR-123'')])])"
    "then_read (get_prop (Obj [(''agreement'', Obj [(''id'', Str ''AGR-123'')])]) ''agreement'') ''id''
       = Inr (Str ''AGR-123'')"
    by (simp_all add: world_defs then_read_def)
  from fixture_before_network [where w = w_no_file and e = "FsError ''ENOENT''"]
    fixture_before_network [where w = w_bad_json and e = "SyntaxError ''Unexpected token''"
      and fileContents = "''not json''"]
    fixture_before_network [where w = w_no_agreement and e = "TypeError ''id''"
      and fileContents = "''{}''" and webhook = "Obj []"]
    fixture_before_network [where w = w_ok and fileContents = fixture_text
      and webhook = "Obj [(''agreement'', Obj [(''id'', Str ''AGR-123'')])]"
      and agreementId = "Str ''AGR-123''" and e = "FsError ''ENOENT''"]
  show ?thesis
    by (simp (no_asm_use) add: a b c d then_read_def) blast
qed

end
